theory Spec2Isabelle
  imports Complex_Main
begin

section \<open>Numbers and text of the engine (src/src/engine.ts)\<close>

text \<open>
  The engine computes on JavaScript numbers, and every numeric field of a scenario is one:
  besides the finite numbers there are the two infinities and NaN, which a scenario can
  carry (an imported \<^verbatim>\<open>1e999\<close> is \<^verbatim>\<open>Infinity\<close>) and which the operations produce
  (\<^verbatim>\<open>Infinity - Infinity\<close>, \<^verbatim>\<open>0 * Infinity\<close>, \<^verbatim>\<open>x / 0\<close>, the square root of a
  negative number). The operations below follow IEEE 754 on these special values. On
  finite operands they are exact: rounding, overflow and underflow of doubles are not
  modelled, and zero has no sign (a zero divisor counts as \<open>+0\<close>). The monotonicity
  properties below are therefore stated with the engine's own comparisons and without
  strictness, which rounding does not preserve.
\<close>

datatype number = Fin real | PInf | NInf | NaN

fun isNaN :: "number \<Rightarrow> bool" where
  "isNaN NaN = True"
| "isNaN x = False"

fun js_neg :: "number \<Rightarrow> number" where
  "js_neg (Fin a) = Fin (- a)"
| "js_neg PInf = NInf"
| "js_neg NInf = PInf"
| "js_neg NaN = NaN"

text \<open>\<^verbatim>\<open>x + y\<close> and \<^verbatim>\<open>x - y\<close>.\<close>

fun js_add :: "number \<Rightarrow> number \<Rightarrow> number" where
  "js_add (Fin a) (Fin b) = Fin (a + b)"
| "js_add NaN y = NaN"
| "js_add x NaN = NaN"
| "js_add PInf NInf = NaN"
| "js_add NInf PInf = NaN"
| "js_add PInf y = PInf"
| "js_add NInf y = NInf"
| "js_add x PInf = PInf"
| "js_add x NInf = NInf"

definition js_sub :: "number \<Rightarrow> number \<Rightarrow> number" where
  "js_sub x y = js_add x (js_neg y)"

text \<open>\<^verbatim>\<open>x * y\<close>: an infinity times zero is NaN.\<close>

fun js_mul :: "number \<Rightarrow> number \<Rightarrow> number" where
  "js_mul (Fin a) (Fin b) = Fin (a * b)"
| "js_mul NaN y = NaN"
| "js_mul x NaN = NaN"
| "js_mul PInf (Fin b) = (if 0 < b then PInf else if b < 0 then NInf else NaN)"
| "js_mul NInf (Fin b) = (if 0 < b then NInf else if b < 0 then PInf else NaN)"
| "js_mul (Fin a) PInf = (if 0 < a then PInf else if a < 0 then NInf else NaN)"
| "js_mul (Fin a) NInf = (if 0 < a then NInf else if a < 0 then PInf else NaN)"
| "js_mul PInf PInf = PInf"
| "js_mul PInf NInf = NInf"
| "js_mul NInf PInf = NInf"
| "js_mul NInf NInf = PInf"

text \<open>\<^verbatim>\<open>x / y\<close>: a zero divisor gives an infinity of the sign of the dividend,
  \<^verbatim>\<open>0 / 0\<close> and \<^verbatim>\<open>Infinity / Infinity\<close> are NaN, a finite number over an infinity is 0.\<close>

fun js_div :: "number \<Rightarrow> number \<Rightarrow> number" where
  "js_div (Fin a) (Fin b) =
     (if b \<noteq> 0 then Fin (a / b)
      else if 0 < a then PInf
      else if a < 0 then NInf
      else NaN)"
| "js_div NaN y = NaN"
| "js_div x NaN = NaN"
| "js_div (Fin a) PInf = Fin 0"
| "js_div (Fin a) NInf = Fin 0"
| "js_div PInf (Fin b) = (if 0 \<le> b then PInf else NInf)"
| "js_div NInf (Fin b) = (if 0 \<le> b then NInf else PInf)"
| "js_div x y = NaN"

text \<open>\<^verbatim>\<open>Math.abs\<close>, \<^verbatim>\<open>Math.max\<close> and \<^verbatim>\<open>Math.min\<close> (NaN as soon as an argument is
  NaN), \<^verbatim>\<open>Math.pow(x, 2)\<close> and \<^verbatim>\<open>Math.sqrt\<close> (NaN below zero; HOL's \<^term>\<open>sqrt\<close> is
  odd there).\<close>

fun js_abs :: "number \<Rightarrow> number" where
  "js_abs (Fin a) = Fin \<bar>a\<bar>"
| "js_abs PInf = PInf"
| "js_abs NInf = PInf"
| "js_abs NaN = NaN"

fun js_max :: "number \<Rightarrow> number \<Rightarrow> number" where
  "js_max (Fin a) (Fin b) = Fin (max a b)"
| "js_max NaN y = NaN"
| "js_max x NaN = NaN"
| "js_max PInf y = PInf"
| "js_max x PInf = PInf"
| "js_max NInf y = y"
| "js_max x NInf = x"

fun js_min :: "number \<Rightarrow> number \<Rightarrow> number" where
  "js_min (Fin a) (Fin b) = Fin (min a b)"
| "js_min NaN y = NaN"
| "js_min x NaN = NaN"
| "js_min NInf y = NInf"
| "js_min x NInf = NInf"
| "js_min PInf y = y"
| "js_min x PInf = x"

fun js_pow2 :: "number \<Rightarrow> number" where
  "js_pow2 (Fin a) = Fin (a ^ 2)"
| "js_pow2 PInf = PInf"
| "js_pow2 NInf = PInf"
| "js_pow2 NaN = NaN"

fun js_sqrt :: "number \<Rightarrow> number" where
  "js_sqrt (Fin x) = (if x < 0 then NaN else Fin (sqrt x))"
| "js_sqrt PInf = PInf"
| "js_sqrt NInf = NaN"
| "js_sqrt NaN = NaN"

text \<open>The comparisons \<^verbatim>\<open>x < y\<close>, \<^verbatim>\<open>x <= y\<close>, \<^verbatim>\<open>x > y\<close> and \<^verbatim>\<open>x >= y\<close>: false as
  soon as one side is NaN.\<close>

fun js_lt :: "number \<Rightarrow> number \<Rightarrow> bool" where
  "js_lt NaN y = False"
| "js_lt x NaN = False"
| "js_lt (Fin a) (Fin b) = (a < b)"
| "js_lt NInf (Fin b) = True"
| "js_lt NInf PInf = True"
| "js_lt (Fin a) PInf = True"
| "js_lt x y = False"

fun js_le :: "number \<Rightarrow> number \<Rightarrow> bool" where
  "js_le NaN y = False"
| "js_le x NaN = False"
| "js_le (Fin a) (Fin b) = (a \<le> b)"
| "js_le NInf y = True"
| "js_le x PInf = True"
| "js_le x y = False"

definition js_gt :: "number \<Rightarrow> number \<Rightarrow> bool" where
  "js_gt x y = js_lt y x"

definition js_ge :: "number \<Rightarrow> number \<Rightarrow> bool" where
  "js_ge x y = js_le y x"

text \<open>
  A template literal is the list of its pieces: literal text, \<^verbatim>\<open>x.toFixed(n)\<close> and the
  plain interpolation \<^verbatim>\<open>${x}\<close>. The digits that a number prints as are not modelled;
  a piece keeps the number itself. (The superscript three of the volume warning is
  written \<open>^3\<close>.)
\<close>

datatype piece = Txt string | ToFixed nat number | ToStr number

type_synonym template = "piece list"

section \<open>Types\<close>

datatype ConservatismLevel = low | normal | high
datatype Orientation = radial | tangential | downward | upward | opposite | unknown
datatype TankShape = cylindrical | rectangular
datatype RiLengthScale = nozzle | depth_quarter | tank_half

record Tank =
  shape :: TankShape
  diameter_m :: number
  water_depth_m :: number
  operating_storage_kL :: number
  reserve_unusable_kL :: number

text \<open>Inlet and Outlet both have \<^verbatim>\<open>elevation_from_floor_m\<close> and \<^verbatim>\<open>orientation\<close>; the
  fields carry the record's name in front.\<close>

record Inlet =
  count :: number
  inlet_elevation_from_floor_m :: number
  nozzle_diameter_mm :: number
  inlet_orientation :: Orientation
  inclination_deg :: number

record Outlet =
  outlet_elevation_from_floor_m :: number
  outlet_orientation :: Orientation

record Operation =
  inflow_Lps :: number
  fill_event_volume_kL :: number
  events_per_day :: number

record Water =
  temperature_inflow_min_C :: number
  temperature_inflow_max_C :: number
  temperature_tank_initial_C :: number

text \<open>\<^verbatim>\<open>target_velocity_m_s\<close> is declared a number, and the engine reads it through
  \<^verbatim>\<open>?? 0.8\<close>: \<open>None\<close> is the field being undefined or null.\<close>

record Options =
  target_mixed_fraction :: number
  conservatism :: ConservatismLevel
  ri_length_scale :: RiLengthScale
  target_velocity_m_s :: "number option"
  ri_threshold_warn :: number
  ri_threshold_fail :: number
  tor_threshold_warn :: number
  layout_score_warn :: number
  layout_score_fail :: number
  risk_vertical_proximity :: number
  risk_high_elevation :: number
  risk_orient_radial :: number
  risk_orient_upward :: number
  credit_orient_tangential :: number
  credit_orient_downward :: number
  credit_outlet_opposite :: number
  credit_multiple_inlets :: number

record Scenario =
  scenario_id :: string
  scenario_name :: string
  tank :: Tank
  inlet :: Inlet
  outlet :: Outlet
  operation :: Operation
  water :: Water
  options :: Options

datatype Status = PASS | WARN | FAIL

datatype Reach = upper_layer_only | partial | bottom

record Metrics =
  inletVelocity_m_s :: number
  froudeInlet :: number
  richardsonNumber :: number
  turnoverRatio :: number
  jetPenetrationReach :: Reach
  horizontalRiskScore :: number
  deltaT :: number
  tankVolume_geom_m3 :: number
  tankVolume_total_effective_m3 :: number
  deltaT_inlet_vs_tank :: number
  deltaT_inlet_range :: number
  ri_numerator :: number
  ri_denominator :: number
  ri_lengthScale_m :: number
  beta_per_C :: number

datatype RecType = type_design | type_operation
datatype Priority = prio_high | prio_medium | prio_low

record Recommendation =
  rec_id :: string
  rec_type :: RecType
  message :: template
  priority :: Priority

datatype DominantRisk = buoyancy | short_circuit | insufficient_momentum | none

record Result =
  overallStatus :: Status
  verticalStatus :: Status
  horizontalStatus :: Status
  metrics :: Metrics
  recommendations :: "Recommendation list"
  validityFlags :: "template list"
  dominantRisk :: DominantRisk

section \<open>Constants and helper functions\<close>

definition G :: number where
  "G = Fin 9.81"

definition Math_PI :: number where
  "Math_PI = Fin pi"

definition computeNozzleArea :: "number \<Rightarrow> number" where
  "computeNozzleArea d_mm =
     (let d_m = js_div d_mm (Fin 1000) in js_mul Math_PI (js_pow2 (js_div d_m (Fin 2))))"

definition computeTankVolumeCyl :: "number \<Rightarrow> number \<Rightarrow> number" where
  "computeTankVolumeCyl D_m H_m = js_mul (js_div (js_mul Math_PI (js_pow2 D_m)) (Fin 4)) H_m"

definition computeInletVelocity :: "number \<Rightarrow> number \<Rightarrow> number \<Rightarrow> number" where
  "computeInletVelocity flow_Lps area_m2 cnt =
     (if js_le area_m2 (Fin 0) \<or> js_le cnt (Fin 0) then Fin 0
      else let flow_m3s = js_div flow_Lps (Fin 1000);
               flowPerInlet = js_div flow_m3s cnt
           in js_div flowPerInlet area_m2)"

definition estimateBetaPerC :: "number \<Rightarrow> number" where
  "estimateBetaPerC tempC = Fin 0.00021"

definition computeFroudeInlet :: "number \<Rightarrow> number \<Rightarrow> number" where
  "computeFroudeInlet Vj d_nozzle_m =
     (if js_le d_nozzle_m (Fin 0) then Fin 0 else js_div Vj (js_sqrt (js_mul G d_nozzle_m)))"

definition computeTurnoverRatio :: "number \<Rightarrow> number \<Rightarrow> number" where
  "computeTurnoverRatio fillVol_m3 tankVol_m3 =
     (if js_le tankVol_m3 (Fin 0) then Fin 0 else js_div fillVol_m3 tankVol_m3)"

section \<open>Main engine logic: analyzeScenario\<close>

text \<open>
  Each \<^verbatim>\<open>const\<close> of \<^verbatim>\<open>analyzeScenario\<close> is a function of the scenario under the
  source's name. A variable the source reassigns (\<^verbatim>\<open>Ri\<close>, \<^verbatim>\<open>verticalStatus\<close>,
  \<^verbatim>\<open>hScore\<close>, \<^verbatim>\<open>recs\<close>, \<^verbatim>\<open>validityFlags\<close>) is passed through the
  statements that assign it, in the source's order.
\<close>

subsection \<open>1. Volume and geometry checks\<close>

definition v_geom_m3 :: "Scenario \<Rightarrow> number" where
  "v_geom_m3 s = computeTankVolumeCyl (diameter_m (tank s)) (water_depth_m (tank s))"

definition v_oper_m3 :: "Scenario \<Rightarrow> number" where
  "v_oper_m3 s = js_max (Fin 0) (operating_storage_kL (tank s))"

definition v_reserve_m3 :: "Scenario \<Rightarrow> number" where
  "v_reserve_m3 s = js_max (Fin 0) (reserve_unusable_kL (tank s))"

definition v_eff_m3 :: "Scenario \<Rightarrow> number" where
  "v_eff_m3 s = js_add (v_oper_m3 s) (v_reserve_m3 s)"

definition initial_flags :: "template list" where
  "initial_flags =
     [[Txt ''Tier-1 heuristics; not CFD''],
      [Txt ''Cylindrical tank model''],
      [Txt ''Assumes reserve volume participates in mixing''],
      [Txt ''Simplified thermal stratification'']]"

definition volume_warning :: "Scenario \<Rightarrow> template" where
  "volume_warning s =
     [Txt ''Warning: Specified volumes ('', ToFixed 0 (v_eff_m3 s),
      Txt ''m^3) exceed geometric capacity ('', ToFixed 0 (v_geom_m3 s), Txt ''m^3).'']"

definition no_storage_warning :: template where
  "no_storage_warning =
     [Txt ''Warning: No operating/reserve storage defined. Using geometric volume for turnover metrics.'']"

definition volume_flags :: "Scenario \<Rightarrow> template list \<Rightarrow> template list" where
  "volume_flags s flags =
     (let flags = (if js_gt (v_eff_m3 s) (js_mul (v_geom_m3 s) (Fin 1.01))
                   then flags @ [volume_warning s] else flags);
          flags = (if js_le (v_eff_m3 s) (Fin 0) then flags @ [no_storage_warning] else flags)
      in flags)"

definition volumeForTurnover :: "Scenario \<Rightarrow> number" where
  "volumeForTurnover s = (if js_gt (v_eff_m3 s) (Fin 0) then v_eff_m3 s else v_geom_m3 s)"

definition elevation_recs :: "Scenario \<Rightarrow> Recommendation list \<Rightarrow> Recommendation list" where
  "elevation_recs s recs =
     (let recs = (if js_gt (inlet_elevation_from_floor_m (inlet s)) (water_depth_m (tank s))
                  then recs @ [\<lparr>rec_id = ''err-in-elev'', rec_type = type_design,
                         message = [Txt ''Inlet elevation is higher than water depth.''],
                         priority = prio_high\<rparr>]
                  else recs);
          recs = (if js_gt (outlet_elevation_from_floor_m (outlet s)) (water_depth_m (tank s))
                  then recs @ [\<lparr>rec_id = ''err-out-elev'', rec_type = type_design,
                         message = [Txt ''Outlet elevation is higher than water depth.''],
                         priority = prio_high\<rparr>]
                  else recs)
      in recs)"

subsection \<open>2. Hydraulics and thermal\<close>

definition d_noz_m :: "Scenario \<Rightarrow> number" where
  "d_noz_m s = js_div (nozzle_diameter_mm (inlet s)) (Fin 1000)"

definition nozzleArea :: "Scenario \<Rightarrow> number" where
  "nozzleArea s = computeNozzleArea (nozzle_diameter_mm (inlet s))"

definition Vjet :: "Scenario \<Rightarrow> number" where
  "Vjet s = computeInletVelocity (inflow_Lps (operation s)) (nozzleArea s) (count (inlet s))"

definition TOR :: "Scenario \<Rightarrow> number" where
  "TOR s = computeTurnoverRatio (fill_event_volume_kL (operation s)) (volumeForTurnover s)"

definition Fr :: "Scenario \<Rightarrow> number" where
  "Fr s = computeFroudeInlet (Vjet s) (d_noz_m s)"

definition dt_range :: "Scenario \<Rightarrow> number" where
  "dt_range s =
     js_abs (js_sub (temperature_inflow_max_C (water s)) (temperature_inflow_min_C (water s)))"

definition dt_diff_max :: "Scenario \<Rightarrow> number" where
  "dt_diff_max s =
     js_abs (js_sub (temperature_inflow_max_C (water s)) (temperature_tank_initial_C (water s)))"

definition dt_diff_min :: "Scenario \<Rightarrow> number" where
  "dt_diff_min s =
     js_abs (js_sub (temperature_inflow_min_C (water s)) (temperature_tank_initial_C (water s)))"

definition dt_vs_tank :: "Scenario \<Rightarrow> number" where
  "dt_vs_tank s = js_max (dt_diff_max s) (dt_diff_min s)"

definition beta :: "Scenario \<Rightarrow> number" where
  "beta s = estimateBetaPerC (temperature_tank_initial_C (water s))"

subsection \<open>3. Richardson calculation\<close>

definition L_buoyancy :: "Scenario \<Rightarrow> number" where
  "L_buoyancy s =
     (let L = d_noz_m s;
          L = (if ri_length_scale (options s) = depth_quarter
               then js_max (Fin 0.05) (js_min (Fin 2.0) (js_mul (Fin 0.25) (water_depth_m (tank s))))
               else if ri_length_scale (options s) = tank_half
               then js_div (js_min (diameter_m (tank s)) (water_depth_m (tank s))) (Fin 2)
               else L)
      in js_max L (Fin 0.05))"

text \<open>The three branches on \<^verbatim>\<open>Vjet\<close> and \<^verbatim>\<open>dt_vs_tank\<close>; the result is the triple
  \<^verbatim>\<open>(Ri, ri_num, ri_den)\<close>, all three initialised to 0 in the source.\<close>

definition richardson :: "number \<Rightarrow> number \<Rightarrow> number \<Rightarrow> number \<Rightarrow> number \<times> number \<times> number" where
  "richardson V dT L b =
     (if js_le V (Fin 0.0001) then (PInf, Fin 0, Fin 0)
      else if js_lt dT (Fin 0.01) then (Fin 0, Fin 0, js_pow2 V)
      else let ri_num = js_mul (js_mul (js_mul G b) dT) L;
               ri_den = js_pow2 V
           in (js_div ri_num ri_den, ri_num, ri_den))"

definition Ri_raw :: "Scenario \<Rightarrow> number" where
  "Ri_raw s = fst (richardson (Vjet s) (dt_vs_tank s) (L_buoyancy s) (beta s))"

definition ri_num :: "Scenario \<Rightarrow> number" where
  "ri_num s = fst (snd (richardson (Vjet s) (dt_vs_tank s) (L_buoyancy s) (beta s)))"

definition ri_den :: "Scenario \<Rightarrow> number" where
  "ri_den s = snd (snd (richardson (Vjet s) (dt_vs_tank s) (L_buoyancy s) (beta s)))"

text \<open>The NaN check resets \<^verbatim>\<open>Ri\<close> and adds a flag.\<close>

definition Ri :: "Scenario \<Rightarrow> number" where
  "Ri s = (if isNaN (Ri_raw s) then Fin 0 else Ri_raw s)"

definition nan_warning :: template where
  "nan_warning = [Txt ''Error: Calculated Richardson number is NaN. Check input values.'']"

definition nan_flags :: "Scenario \<Rightarrow> template list \<Rightarrow> template list" where
  "nan_flags s flags = (if isNaN (Ri_raw s) then flags @ [nan_warning] else flags)"

subsection \<open>4. Vertical mixing status\<close>

definition v_target :: "Scenario \<Rightarrow> number" where
  "v_target s = (case target_velocity_m_s (options s) of Some v \<Rightarrow> v | None \<Rightarrow> Fin 0.8)"

definition stableStratLikely :: "Scenario \<Rightarrow> bool" where
  "stableStratLikely s =
     (js_ge (dt_vs_tank s) (Fin 2.0) \<and> js_gt (Ri s) (ri_threshold_warn (options s)))"

text \<open>The local \<^verbatim>\<open>jetPenetrationReach\<close> (the name is taken by the field of the metrics).\<close>

definition penetrationReach :: "Scenario \<Rightarrow> Reach" where
  "penetrationReach s =
     (if stableStratLikely s then
        (if js_gt (inlet_elevation_from_floor_m (inlet s)) (js_mul (Fin 0.5) (water_depth_m (tank s)))
         then upper_layer_only
         else if js_gt (inlet_elevation_from_floor_m (inlet s))
                       (js_mul (Fin 0.25) (water_depth_m (tank s)))
         then partial
         else bottom)
      else bottom)"

text \<open>The three statements of the evaluation logic, each on the pair of the current
  \<^verbatim>\<open>verticalStatus\<close> and \<^verbatim>\<open>recs\<close>.\<close>

definition momentum_check :: "Scenario \<Rightarrow> Status \<times> Recommendation list \<Rightarrow> Status \<times> Recommendation list" where
  "momentum_check s st =
     (case st of (vs, recs) \<Rightarrow>
        if js_lt (Vjet s) (js_mul (Fin 0.5) (v_target s)) then
          (FAIL, recs @ [\<lparr>rec_id = ''vert-mom-fail'', rec_type = type_design,
             message = [Txt ''Inlet momentum is critically low ('', ToFixed 2 (Vjet s),
                        Txt '' m/s). Jet likely collapses immediately.''],
             priority = prio_high\<rparr>])
        else if js_lt (Vjet s) (v_target s) then
          (WARN, recs @ [\<lparr>rec_id = ''vert-mom-warn'', rec_type = type_design,
             message = [Txt ''Inlet velocity ('', ToFixed 2 (Vjet s),
                        Txt '' m/s) is below recommended target ('', ToStr (v_target s),
                        Txt '' m/s) for robust mixing.''],
             priority = prio_medium\<rparr>])
        else (vs, recs))"

definition stratification_check :: "Scenario \<Rightarrow> Status \<times> Recommendation list \<Rightarrow> Status \<times> Recommendation list" where
  "stratification_check s st =
     (case st of (vs, recs) \<Rightarrow>
        if vs \<noteq> FAIL then
          (if penetrationReach s = upper_layer_only then
             (FAIL, recs @ [\<lparr>rec_id = ''vert-strat-fail'', rec_type = type_design,
                message = [Txt ''High inlet elevation with temperature difference risks buoyant stratification.''],
                priority = prio_high\<rparr>])
           else if js_gt (Ri s) (ri_threshold_fail (options s)) then
             (FAIL, recs @ [\<lparr>rec_id = ''vert-ri-fail'', rec_type = type_operation,
                message = [Txt ''Richardson number is very high ('',
                           (if js_gt (Ri s) (Fin 100) then Txt ''>100'' else ToFixed 1 (Ri s)),
                           Txt '' > '', ToStr (ri_threshold_fail (options s)),
                           Txt ''). Buoyancy forces overwhelm mixing.''],
                priority = prio_high\<rparr>])
           else if js_gt (Ri s) (ri_threshold_warn (options s)) then
             ((if vs = WARN then WARN else WARN),
              recs @ [\<lparr>rec_id = ''vert-ri-warn'', rec_type = type_operation,
                message = [Txt ''Richardson number > '', ToStr (ri_threshold_warn (options s)),
                           Txt '' ('', ToFixed 2 (Ri s),
                           Txt '') indicates buoyancy forces are significant.''],
                priority = prio_medium\<rparr>])
           else (vs, recs))
        else (vs, recs))"

definition turnover_check :: "Scenario \<Rightarrow> Status \<times> Recommendation list \<Rightarrow> Status \<times> Recommendation list" where
  "turnover_check s st =
     (case st of (vs, recs) \<Rightarrow>
        if js_lt (TOR s) (tor_threshold_warn (options s)) \<and> vs \<noteq> FAIL then
          ((if vs = PASS then WARN else vs),
           recs @ [\<lparr>rec_id = ''vert-tor'', rec_type = type_operation,
             message = [Txt ''Turnover ratio per fill is low ('',
                        ToFixed 1 (js_mul (TOR s) (Fin 100)),
                        Txt ''% < '',
                        ToFixed 0 (js_mul (tor_threshold_warn (options s)) (Fin 100)),
                        Txt ''%).''],
             priority = prio_low\<rparr>])
        else (vs, recs))"

text \<open>\<^verbatim>\<open>let verticalStatus = 'PASS'\<close>, then the three statements.\<close>

definition vertical :: "Scenario \<Rightarrow> Recommendation list \<Rightarrow> Status \<times> Recommendation list" where
  "vertical s recs =
     turnover_check s (stratification_check s (momentum_check s (PASS, recs)))"

subsection \<open>5. Horizontal layout status\<close>

definition distInOut :: "Scenario \<Rightarrow> number" where
  "distInOut s =
     js_abs (js_sub (inlet_elevation_from_floor_m (inlet s)) (outlet_elevation_from_floor_m (outlet s)))"

text \<open>\<^verbatim>\<open>hScore\<close> before the clamp: the eight conditional updates, in order.\<close>

definition hScore_sum :: "Scenario \<Rightarrow> number" where
  "hScore_sum s =
     (let h = Fin 0;
          h = (if js_lt (distInOut s) (js_mul (Fin 0.15) (water_depth_m (tank s)))
               then js_add h (risk_vertical_proximity (options s)) else h);
          h = (if js_gt (inlet_elevation_from_floor_m (inlet s)) (js_mul (Fin 0.6) (water_depth_m (tank s)))
                  \<and> js_gt (outlet_elevation_from_floor_m (outlet s))
                           (js_mul (Fin 0.6) (water_depth_m (tank s)))
               then js_add h (risk_high_elevation (options s)) else h);
          h = (if inlet_orientation (inlet s) = radial
               then js_add h (risk_orient_radial (options s)) else h);
          h = (if inlet_orientation (inlet s) = tangential
               then js_sub h (credit_orient_tangential (options s)) else h);
          h = (if inlet_orientation (inlet s) = downward
               then js_sub h (credit_orient_downward (options s)) else h);
          h = (if inlet_orientation (inlet s) = upward
               then js_add h (risk_orient_upward (options s)) else h);
          h = (if outlet_orientation (outlet s) = opposite
               then js_sub h (credit_outlet_opposite (options s)) else h);
          h = (if js_ge (count (inlet s)) (Fin 2)
               then js_sub h (credit_multiple_inlets (options s)) else h)
      in h)"

definition hScore :: "Scenario \<Rightarrow> number" where
  "hScore s = js_max (Fin 0) (js_min (Fin 100) (hScore_sum s))"

definition horizontal :: "Scenario \<Rightarrow> Status" where
  "horizontal s =
     (if js_ge (hScore s) (layout_score_fail (options s)) then FAIL
      else if js_ge (hScore s) (layout_score_warn (options s)) then WARN
      else PASS)"

definition horizontal_recs :: "Scenario \<Rightarrow> Recommendation list \<Rightarrow> Recommendation list" where
  "horizontal_recs s recs =
     (if horizontal s \<noteq> PASS then
        (let recs = recs @ [\<lparr>rec_id = ''horiz-main'', rec_type = type_design,
                      message = [Txt ''Horizontal layout risk score is '', ToStr (hScore s),
                                 Txt ''/100. '',
                                 Txt (if horizontal s = FAIL
                                      then ''Consider baffling or reorienting nozzles.'' else [])],
                      priority = prio_medium\<rparr>]
         in if js_lt (distInOut s) (js_mul (Fin 0.15) (water_depth_m (tank s)))
            then recs @ [\<lparr>rec_id = ''horiz-prox'', rec_type = type_design,
                   message = [Txt ''Inlet and Outlet are vertically close. Risk of short-circuiting.''],
                   priority = prio_high\<rparr>]
            else recs)
      else recs)"

subsection \<open>6. Recommendations\<close>

definition q_m3s :: "Scenario \<Rightarrow> number" where
  "q_m3s s = js_div (inflow_Lps (operation s)) (Fin 1000)"

definition q_per_inlet :: "Scenario \<Rightarrow> number" where
  "q_per_inlet s = js_div (q_m3s s) (js_max (Fin 1) (count (inlet s)))"

text \<open>Neither the division by \<^verbatim>\<open>Math.PI * v_target\<close> nor the square root is guarded.\<close>

definition max_d_m :: "Scenario \<Rightarrow> number" where
  "max_d_m s =
     js_sqrt (js_div (js_mul (Fin 4) (q_per_inlet s)) (js_mul Math_PI (v_target s)))"

definition nozzle_rec :: "Scenario \<Rightarrow> Recommendation" where
  "nozzle_rec s =
     \<lparr>rec_id = ''rec-nozzle'', rec_type = type_design,
      message = [Txt ''To achieve '', ToStr (v_target s),
                 Txt '' m/s, reduce nozzle diameter to ~'',
                 ToFixed 0 (js_mul (max_d_m s) (Fin 1000)),
                 Txt ''mm.''],
      priority = prio_high\<rparr>"

text \<open>The two statements of the section; \<open>vs\<close> is the final \<^verbatim>\<open>verticalStatus\<close>.\<close>

definition advice_recs :: "Scenario \<Rightarrow> Status \<Rightarrow> Recommendation list \<Rightarrow> Recommendation list" where
  "advice_recs s vs recs =
     (let recs = (if js_lt (Vjet s) (v_target s) then recs @ [nozzle_rec s] else recs);
          recs = (if js_gt (inlet_elevation_from_floor_m (inlet s))
                           (js_mul (Fin 0.25) (water_depth_m (tank s))) \<and> vs \<noteq> PASS
                  then recs @ [\<lparr>rec_id = ''rec-elev'', rec_type = type_design,
                         message = [Txt ''Lower inlet to bottom quarter (<= '',
                                    ToFixed 1 (js_mul (Fin 0.25) (water_depth_m (tank s))),
                                    Txt ''m).''],
                         priority = prio_high\<rparr>]
                  else recs)
      in recs)"

subsection \<open>7. Aggregation\<close>

definition aggregate :: "Status \<Rightarrow> Status \<Rightarrow> Status" where
  "aggregate vs hs =
     (if vs = FAIL \<or> hs = FAIL then FAIL
      else if vs = WARN \<or> hs = WARN then WARN
      else PASS)"

definition dominant :: "Scenario \<Rightarrow> Status \<Rightarrow> Status \<Rightarrow> DominantRisk" where
  "dominant s os vs =
     (if os \<noteq> PASS then
        (if vs = FAIL \<or> vs = WARN then
           (if js_lt (Vjet s) (js_mul (Fin 0.5) (v_target s)) then insufficient_momentum
            else if js_gt (Ri s) (ri_threshold_warn (options s)) then buoyancy
            else insufficient_momentum)
         else short_circuit)
      else none)"

subsection \<open>The result\<close>

definition analyzeScenario :: "Scenario \<Rightarrow> Result" where
  "analyzeScenario s =
     (let flags = nan_flags s (volume_flags s initial_flags);
          recs = elevation_recs s [];
          (vs, recs) = vertical s recs;
          hs = horizontal s;
          recs = horizontal_recs s recs;
          recs = advice_recs s vs recs;
          os = aggregate vs hs
      in \<lparr>overallStatus = os,
          verticalStatus = vs,
          horizontalStatus = hs,
          metrics = \<lparr>inletVelocity_m_s = Vjet s,
                     froudeInlet = Fr s,
                     richardsonNumber = Ri s,
                     turnoverRatio = TOR s,
                     jetPenetrationReach = penetrationReach s,
                     horizontalRiskScore = hScore s,
                     deltaT = dt_vs_tank s,
                     tankVolume_geom_m3 = v_geom_m3 s,
                     tankVolume_total_effective_m3 = v_eff_m3 s,
                     deltaT_inlet_vs_tank = dt_vs_tank s,
                     deltaT_inlet_range = dt_range s,
                     ri_numerator = ri_num s,
                     ri_denominator = ri_den s,
                     ri_lengthScale_m = L_buoyancy s,
                     beta_per_C = beta s\<rparr>,
          recommendations = recs,
          validityFlags = flags,
          dominantRisk = dominant s os vs\<rparr>)"

subsection \<open>The default scenario\<close>

definition createDefaultScenario :: Scenario where
  "createDefaultScenario =
     \<lparr>scenario_id = ''default-1'',
      scenario_name = ''Baseline Scenario'',
      tank = \<lparr>shape = cylindrical, diameter_m = Fin 10, water_depth_m = Fin 5,
              operating_storage_kL = Fin 350, reserve_unusable_kL = Fin 40\<rparr>,
      inlet = \<lparr>count = Fin 1, inlet_elevation_from_floor_m = Fin 0.5,
               nozzle_diameter_mm = Fin 150, inlet_orientation = radial,
               inclination_deg = Fin 0\<rparr>,
      outlet = \<lparr>outlet_elevation_from_floor_m = Fin 0.2, outlet_orientation = opposite\<rparr>,
      operation = \<lparr>inflow_Lps = Fin 20, fill_event_volume_kL = Fin 100,
                   events_per_day = Fin 1\<rparr>,
      water = \<lparr>temperature_inflow_min_C = Fin 15, temperature_inflow_max_C = Fin 18,
               temperature_tank_initial_C = Fin 22\<rparr>,
      options = \<lparr>target_mixed_fraction = Fin 0.95, conservatism = normal,
                 ri_length_scale = depth_quarter, target_velocity_m_s = Some (Fin 0.8),
                 ri_threshold_warn = Fin 1.0, ri_threshold_fail = Fin 5.0,
                 tor_threshold_warn = Fin 0.3,
                 layout_score_warn = Fin 30, layout_score_fail = Fin 65,
                 risk_vertical_proximity = Fin 25, risk_high_elevation = Fin 35,
                 risk_orient_radial = Fin 15, risk_orient_upward = Fin 5,
                 credit_orient_tangential = Fin 10, credit_orient_downward = Fin 5,
                 credit_outlet_opposite = Fin 5, credit_multiple_inlets = Fin 10\<rparr>\<rparr>"

section \<open>Notions of the specification\<close>

text \<open>The specification orders the statuses PASS < WARN < FAIL.\<close>

fun severity :: "Status \<Rightarrow> nat" where
  "severity PASS = 0"
| "severity WARN = 1"
| "severity FAIL = 2"

text \<open>The specification describes the second statement of the evaluation logic as two
  checks in sequence, the penetration check and the Richardson threshold check. These two
  definitions follow its words; \<open>fst_stratification_check\<close> compares them with the code.\<close>

definition penetration_step :: "Scenario \<Rightarrow> Status \<Rightarrow> Status" where
  "penetration_step s vs =
     (if vs \<noteq> FAIL \<and> penetrationReach s = upper_layer_only then FAIL else vs)"

definition richardson_step :: "Scenario \<Rightarrow> Status \<Rightarrow> Status" where
  "richardson_step s vs =
     (if vs = FAIL then vs
      else if js_gt (Ri s) (ri_threshold_fail (options s)) then FAIL
      else if js_gt (Ri s) (ri_threshold_warn (options s)) \<and> vs = PASS then WARN
      else vs)"

section \<open>Concrete scenarios\<close>

text \<open>Variations of the default scenario, in the manner of \<^verbatim>\<open>runEngineSanityChecks\<close>,
  which copies the default scenario and changes single fields.\<close>

definition nearly_isothermal_scenario :: Scenario where
  "nearly_isothermal_scenario =
     createDefaultScenario\<lparr>water :=
       \<lparr>temperature_inflow_min_C = Fin 22, temperature_inflow_max_C = Fin 22.005,
        temperature_tank_initial_C = Fin 22\<rparr>\<rparr>"

definition unbounded_temperature_scenario :: Scenario where
  "unbounded_temperature_scenario =
     createDefaultScenario\<lparr>water :=
       \<lparr>temperature_inflow_min_C = Fin 15, temperature_inflow_max_C = PInf,
        temperature_tank_initial_C = PInf\<rparr>\<rparr>"

definition colder_inflow_scenario :: Scenario where
  "colder_inflow_scenario =
     createDefaultScenario\<lparr>water :=
       \<lparr>temperature_inflow_min_C = Fin 10, temperature_inflow_max_C = Fin 18,
        temperature_tank_initial_C = Fin 22\<rparr>\<rparr>"

definition no_inflow_scenario :: Scenario where
  "no_inflow_scenario =
     createDefaultScenario\<lparr>operation :=
       \<lparr>inflow_Lps = Fin 0, fill_event_volume_kL = Fin 100, events_per_day = Fin 1\<rparr>\<rparr>"

definition no_inflow_colder_scenario :: Scenario where
  "no_inflow_colder_scenario =
     no_inflow_scenario\<lparr>water :=
       \<lparr>temperature_inflow_min_C = Fin 10, temperature_inflow_max_C = Fin 18,
        temperature_tank_initial_C = Fin 22\<rparr>\<rparr>"

definition unbounded_inflow_scenario :: Scenario where
  "unbounded_inflow_scenario =
     createDefaultScenario\<lparr>operation :=
       \<lparr>inflow_Lps = PInf, fill_event_volume_kL = Fin 100, events_per_day = Fin 1\<rparr>\<rparr>"

definition unbounded_inflow_colder_scenario :: Scenario where
  "unbounded_inflow_colder_scenario =
     unbounded_inflow_scenario\<lparr>water :=
       \<lparr>temperature_inflow_min_C = Fin 10, temperature_inflow_max_C = Fin 18,
        temperature_tank_initial_C = Fin 22\<rparr>\<rparr>"

definition negative_inflow_scenario :: Scenario where
  "negative_inflow_scenario =
     createDefaultScenario\<lparr>operation :=
       \<lparr>inflow_Lps = Fin (- 20), fill_event_volume_kL = Fin 100, events_per_day = Fin 1\<rparr>\<rparr>"

definition slightly_overfull_scenario :: Scenario where
  "slightly_overfull_scenario =
     createDefaultScenario\<lparr>tank :=
       \<lparr>shape = cylindrical, diameter_m = Fin 10, water_depth_m = Fin 5,
        operating_storage_kL = Fin 350, reserve_unusable_kL = Fin 45\<rparr>\<rparr>"

definition overfull_scenario :: Scenario where
  "overfull_scenario =
     createDefaultScenario\<lparr>tank :=
       \<lparr>shape = cylindrical, diameter_m = Fin 10, water_depth_m = Fin 5,
        operating_storage_kL = Fin 350, reserve_unusable_kL = Fin 100\<rparr>\<rparr>"

definition wide_nozzle_scenario :: Scenario where
  "wide_nozzle_scenario =
     createDefaultScenario\<lparr>inlet :=
       \<lparr>count = Fin 1, inlet_elevation_from_floor_m = Fin 0.5, nozzle_diameter_mm = Fin 300,
        inlet_orientation = radial, inclination_deg = Fin 0\<rparr>\<rparr>"

definition high_inlet_scenario :: Scenario where
  "high_inlet_scenario =
     createDefaultScenario\<lparr>inlet :=
       \<lparr>count = Fin 1, inlet_elevation_from_floor_m = Fin 4, nozzle_diameter_mm = Fin 150,
        inlet_orientation = radial, inclination_deg = Fin 0\<rparr>\<rparr>"

text \<open>The default options with two infinite layout weights, the radial-orientation risk and
  the opposite-outlet credit (both apply to the default layout).\<close>

definition infinite_weights_scenario :: Scenario where
  "infinite_weights_scenario =
     createDefaultScenario\<lparr>options :=
       (options createDefaultScenario)
         \<lparr>risk_orient_radial := PInf, credit_outlet_opposite := PInf\<rparr>\<rparr>"

section \<open>Special values as operands\<close>

lemma js_NaN_right [simp]:
  "js_add x NaN = NaN" "js_mul x NaN = NaN" "js_div x NaN = NaN"
  "js_max x NaN = NaN" "js_min x NaN = NaN" "\<not> js_lt x NaN" "\<not> js_le x NaN"
  by (cases x; simp)+

lemma js_lt_extremes [simp]: "\<not> js_lt PInf y" "\<not> js_lt x NInf"
  by (cases y; simp) (cases x; simp)

lemma positive_number: "js_gt x (Fin 0) \<Longrightarrow> (\<exists>a. x = Fin a \<and> 0 < a) \<or> x = PInf"
  by (cases x) (simp_all add: js_gt_def)

lemma nonnegative_number: "js_ge x (Fin 0) \<Longrightarrow> (\<exists>a. x = Fin a \<and> 0 \<le> a) \<or> x = PInf"
  by (cases x) (simp_all add: js_ge_def)

lemma above_finite: "js_lt (Fin a) y \<Longrightarrow> (\<exists>b. y = Fin b \<and> a < b) \<or> y = PInf"
  by (cases y) simp_all

section \<open>Bounds on pi\<close>

lemma sin_taylor5: "\<bar>sin x - (x - x ^ 3 / 6)\<bar> \<le> \<bar>x\<bar> ^ 5 / 120" for x :: real
proof -
  have "(\<Sum>m<5. sin_coeff m * x ^ m) = (\<Sum>m<Suc (Suc (Suc (Suc (Suc 0)))). sin_coeff m * x ^ m)"
    by (simp add: eval_nat_numeral)
  also have "\<dots> = x - x ^ 3 / 6"
    by (simp add: sin_coeff_Suc cos_coeff_Suc power3_eq_cube)
  finally have s: "(\<Sum>m<5. sin_coeff m * x ^ m) = x - x ^ 3 / 6" .
  have "(fact 5 :: real) = 120"
    by (simp add: eval_nat_numeral)
  then have f: "inverse (fact 5) * \<bar>x\<bar> ^ 5 = \<bar>x\<bar> ^ 5 / 120"
    by (simp only: inverse_eq_divide)
  show ?thesis
    using Maclaurin_sin_bound [of x 5] unfolding s f .
qed

lemma pi_gt_314: "3.14 < pi"
proof (rule ccontr)
  assume "\<not> 3.14 < pi"
  then have le: "pi / 6 \<le> 157 / 300" by simp
  have "sin (pi / 6) \<le> sin (157 / 300 :: real)"
  proof (rule sin_monotone_2pi_le)
    show "- (pi / 2) \<le> pi / 6" by simp
    show "pi / 6 \<le> 157 / 300" by (rule le)
    show "(157 / 300 :: real) \<le> pi / 2" using pi_ge_two by simp
  qed
  then have a: "1 / 2 \<le> sin (157 / 300 :: real)" by (simp add: sin_30)
  have "sin (157 / 300 :: real) \<le> (157 / 300 - (157 / 300) ^ 3 / 6) + \<bar>157 / 300\<bar> ^ 5 / 120"
    using sin_taylor5 [of "157 / 300"] by linarith
  also have "\<dots> < 1 / 2" by (simp add: power_divide)
  finally show False using a by simp
qed

lemma pi_less_315: "pi < 3.15"
proof (rule ccontr)
  assume "\<not> pi < 3.15"
  then have le: "21 / 40 \<le> pi / 6" by simp
  have "sin (21 / 40 :: real) \<le> sin (pi / 6)"
  proof (rule sin_monotone_2pi_le)
    show "- (pi / 2) \<le> (21 / 40 :: real)"
      using pi_ge_zero by linarith
    show "21 / 40 \<le> pi / 6" by (rule le)
    show "pi / 6 \<le> pi / 2" by simp
  qed
  then have a: "sin (21 / 40 :: real) \<le> 1 / 2" by (simp add: sin_30)
  have "(1 / 2 :: real) < (21 / 40 - (21 / 40) ^ 3 / 6) - \<bar>21 / 40\<bar> ^ 5 / 120"
    by (simp add: power_divide)
  also have "\<dots> \<le> sin (21 / 40 :: real)"
    using sin_taylor5 [of "21 / 40"] by linarith
  finally show False using a by simp
qed

section \<open>The fields of the result\<close>

lemma analyze_verticalStatus:
  "verticalStatus (analyzeScenario s) = fst (vertical s (elevation_recs s []))"
  by (simp add: analyzeScenario_def Let_def split_beta)

lemma analyze_horizontalStatus: "horizontalStatus (analyzeScenario s) = horizontal s"
  by (simp add: analyzeScenario_def Let_def split_beta)

lemma analyze_overallStatus:
  "overallStatus (analyzeScenario s) =
     aggregate (fst (vertical s (elevation_recs s []))) (horizontal s)"
  by (simp add: analyzeScenario_def Let_def split_beta)

lemma analyze_dominantRisk:
  "dominantRisk (analyzeScenario s) =
     dominant s (aggregate (fst (vertical s (elevation_recs s []))) (horizontal s))
       (fst (vertical s (elevation_recs s [])))"
  by (simp add: analyzeScenario_def Let_def split_beta)

lemma analyze_metrics:
  "metrics (analyzeScenario s) =
     \<lparr>inletVelocity_m_s = Vjet s, froudeInlet = Fr s, richardsonNumber = Ri s,
      turnoverRatio = TOR s, jetPenetrationReach = penetrationReach s,
      horizontalRiskScore = hScore s, deltaT = dt_vs_tank s,
      tankVolume_geom_m3 = v_geom_m3 s, tankVolume_total_effective_m3 = v_eff_m3 s,
      deltaT_inlet_vs_tank = dt_vs_tank s, deltaT_inlet_range = dt_range s,
      ri_numerator = ri_num s, ri_denominator = ri_den s,
      ri_lengthScale_m = L_buoyancy s, beta_per_C = beta s\<rparr>"
  by (simp add: analyzeScenario_def Let_def split_beta)

lemma analyze_recommendations:
  "recommendations (analyzeScenario s) =
     advice_recs s (fst (vertical s (elevation_recs s [])))
       (horizontal_recs s (snd (vertical s (elevation_recs s []))))"
  by (simp add: analyzeScenario_def Let_def split_beta)

lemma analyze_validityFlags:
  "validityFlags (analyzeScenario s) = nan_flags s (volume_flags s initial_flags)"
  by (simp add: analyzeScenario_def Let_def split_beta)

section \<open>Aggregation\<close>

text \<open>
  C2. For every scenario the overall status is FAIL exactly when the vertical or the
  horizontal status is FAIL, PASS exactly when both are PASS, and WARN in the remaining
  cases: it is the worse of the two under PASS < WARN < FAIL.
\<close>

theorem overall_is_worse_of_axes:
  "(overallStatus (analyzeScenario s) = FAIL) =
     (verticalStatus (analyzeScenario s) = FAIL \<or> horizontalStatus (analyzeScenario s) = FAIL)
   \<and> (overallStatus (analyzeScenario s) = PASS) =
     (verticalStatus (analyzeScenario s) = PASS \<and> horizontalStatus (analyzeScenario s) = PASS)
   \<and> (overallStatus (analyzeScenario s) = WARN) =
     (\<not> (verticalStatus (analyzeScenario s) = FAIL \<or> horizontalStatus (analyzeScenario s) = FAIL)
      \<and> \<not> (verticalStatus (analyzeScenario s) = PASS \<and> horizontalStatus (analyzeScenario s) = PASS))
   \<and> severity (overallStatus (analyzeScenario s)) =
       max (severity (verticalStatus (analyzeScenario s)))
           (severity (horizontalStatus (analyzeScenario s)))"
proof -
  obtain v h where v: "verticalStatus (analyzeScenario s) = v"
    and h: "horizontalStatus (analyzeScenario s) = h" by simp
  have o: "overallStatus (analyzeScenario s) = aggregate v h"
    using v h by (simp add: analyze_overallStatus analyze_verticalStatus analyze_horizontalStatus)
  show ?thesis unfolding v h o
    by (cases v; cases h; simp add: aggregate_def)
qed

text \<open>
  C8. The dominant-risk label is \<open>none\<close> when the overall status is PASS. Otherwise,
  with a vertical status of WARN or FAIL it is \<open>insufficient_momentum\<close> when the inlet
  velocity is below half the target velocity, else \<open>buoyancy\<close> when the Richardson number
  exceeds the warn threshold, else \<open>insufficient_momentum\<close>; with a vertical status of
  PASS it is \<open>short_circuit\<close>.
\<close>

theorem dominant_risk_label:
  "dominantRisk (analyzeScenario s) =
     (if overallStatus (analyzeScenario s) = PASS then none
      else if verticalStatus (analyzeScenario s) = WARN \<or> verticalStatus (analyzeScenario s) = FAIL
      then (if js_lt (inletVelocity_m_s (metrics (analyzeScenario s)))
                     (js_mul (Fin 0.5) (v_target s))
            then insufficient_momentum
            else if js_gt (richardsonNumber (metrics (analyzeScenario s)))
                          (ri_threshold_warn (options s))
            then buoyancy
            else insufficient_momentum)
      else short_circuit)"
  by (auto simp add: analyze_dominantRisk analyze_overallStatus analyze_verticalStatus
      analyze_metrics dominant_def)

section \<open>Vertical rule chain\<close>

lemma fst_momentum_check:
  "fst (momentum_check s (vs, recs)) =
     (if js_lt (Vjet s) (js_mul (Fin 0.5) (v_target s)) then FAIL
      else if js_lt (Vjet s) (v_target s) then WARN else vs)"
  by (simp add: momentum_check_def)

lemma fst_stratification_check:
  "fst (stratification_check s (vs, recs)) = richardson_step s (penetration_step s vs)"
  by (cases vs) (simp_all add: stratification_check_def richardson_step_def penetration_step_def)

lemma fst_turnover_check:
  "fst (turnover_check s (vs, recs)) =
     (if js_lt (TOR s) (tor_threshold_warn (options s)) \<and> vs = PASS then WARN else vs)"
  by (cases vs) (simp_all add: turnover_check_def)

lemma severity_penetration_step: "severity vs \<le> severity (penetration_step s vs)"
  by (cases vs) (simp_all add: penetration_step_def)

lemma severity_richardson_step: "severity vs \<le> severity (richardson_step s vs)"
  by (cases vs) (simp_all add: richardson_step_def)

text \<open>
  C3. The vertical status is the result of the chain momentum check, penetration check,
  Richardson threshold check, turnover check, started at PASS. No check lowers the
  severity it receives: the momentum check runs on PASS; the penetration and the
  Richardson check (which leaves FAIL alone) and the turnover check (which changes PASS to
  WARN and nothing else) return a status at least as severe as the one they are given.
\<close>

theorem vertical_chain_non_decreasing:
  "verticalStatus (analyzeScenario s) =
     fst (turnover_check s (stratification_check s (momentum_check s (PASS, elevation_recs s []))))
   \<and> severity PASS \<le> severity (fst (momentum_check s (PASS, recs)))
   \<and> severity vs \<le> severity (penetration_step s vs)
   \<and> severity vs \<le> severity (richardson_step s vs)
   \<and> richardson_step s FAIL = FAIL
   \<and> fst (stratification_check s (vs, recs)) = richardson_step s (penetration_step s vs)
   \<and> severity vs \<le> severity (fst (stratification_check s (vs, recs)))
   \<and> severity vs \<le> severity (fst (turnover_check s (vs, recs)))
   \<and> (fst (turnover_check s (vs, recs)) = vs
        \<or> (vs = PASS \<and> fst (turnover_check s (vs, recs)) = WARN))"
proof -
  have a: "verticalStatus (analyzeScenario s) =
     fst (turnover_check s (stratification_check s (momentum_check s (PASS, elevation_recs s []))))"
    by (simp add: analyze_verticalStatus vertical_def)
  have b: "severity vs \<le> severity (fst (stratification_check s (vs, recs)))"
    unfolding fst_stratification_check
    using severity_penetration_step [of vs s] severity_richardson_step [of "penetration_step s vs" s]
    by (rule order_trans)
  have c: "richardson_step s FAIL = FAIL" by (simp add: richardson_step_def)
  have d: "severity vs \<le> severity (fst (turnover_check s (vs, recs)))"
    by (cases vs) (simp_all add: fst_turnover_check)
  have e: "fst (turnover_check s (vs, recs)) = vs
        \<or> (vs = PASS \<and> fst (turnover_check s (vs, recs)) = WARN)"
    by (simp add: fst_turnover_check)
  show ?thesis
    using a b c d e severity_penetration_step severity_richardson_step fst_stratification_check
    by simp
qed

section \<open>Values in the concrete scenarios\<close>

lemmas default_fields =
  createDefaultScenario_def nearly_isothermal_scenario_def unbounded_temperature_scenario_def
  colder_inflow_scenario_def no_inflow_scenario_def no_inflow_colder_scenario_def
  unbounded_inflow_scenario_def unbounded_inflow_colder_scenario_def
  negative_inflow_scenario_def slightly_overfull_scenario_def overfull_scenario_def
  wide_nozzle_scenario_def high_inlet_scenario_def infinite_weights_scenario_def

lemmas velocity_defs =
  Vjet_def nozzleArea_def computeNozzleArea_def computeInletVelocity_def Math_PI_def Let_def

lemma pi_not_le_zero: "\<not> pi \<le> 0"
  using pi_gt_zero by linarith

lemma Vjet_nozzle_150:
  "Vjet createDefaultScenario = Fin (32 / (9 * pi))"
  "Vjet nearly_isothermal_scenario = Fin (32 / (9 * pi))"
  "Vjet unbounded_temperature_scenario = Fin (32 / (9 * pi))"
  "Vjet colder_inflow_scenario = Fin (32 / (9 * pi))"
  "Vjet high_inlet_scenario = Fin (32 / (9 * pi))"
  "Vjet slightly_overfull_scenario = Fin (32 / (9 * pi))"
  "Vjet infinite_weights_scenario = Fin (32 / (9 * pi))"
  by (simp_all add: default_fields velocity_defs power2_eq_square field_simps pi_not_le_zero)

lemma Vjet_wide_nozzle: "Vjet wide_nozzle_scenario = Fin (8 / (9 * pi))"
  by (simp add: default_fields velocity_defs power2_eq_square field_simps pi_not_le_zero)

lemma Vjet_negative_inflow: "Vjet negative_inflow_scenario = Fin (- (32 / (9 * pi)))"
  by (simp add: default_fields velocity_defs power2_eq_square field_simps pi_not_le_zero)

lemma Vjet_no_inflow:
  "Vjet no_inflow_scenario = Fin 0"
  "Vjet no_inflow_colder_scenario = Fin 0"
  by (simp_all add: default_fields velocity_defs)

lemma Vjet_unbounded_inflow:
  "Vjet unbounded_inflow_scenario = PInf"
  "Vjet unbounded_inflow_colder_scenario = PInf"
  by (simp_all add: default_fields velocity_defs pi_not_le_zero mult_le_0_iff)

lemma velocity_32_9_pi: "0.0001 < 32 / (9 * pi)"
proof -
  have "9 * pi < 9 * 4" using pi_less_4 by simp
  then have "0.0001 * (9 * pi) < 32" by simp
  then show ?thesis by (simp add: pos_less_divide_eq)
qed

lemma dt_values:
  "dt_vs_tank createDefaultScenario = Fin 7"
  "dt_vs_tank colder_inflow_scenario = Fin 12"
  "dt_vs_tank no_inflow_scenario = Fin 7"
  "dt_vs_tank no_inflow_colder_scenario = Fin 12"
  "dt_vs_tank unbounded_inflow_scenario = Fin 7"
  "dt_vs_tank unbounded_inflow_colder_scenario = Fin 12"
  "dt_vs_tank nearly_isothermal_scenario = Fin 0.005"
  "dt_vs_tank high_inlet_scenario = Fin 7"
  "dt_vs_tank unbounded_temperature_scenario = NaN"
  by (simp_all add: default_fields dt_vs_tank_def dt_diff_max_def dt_diff_min_def js_sub_def)

lemma L_values:
  "L_buoyancy createDefaultScenario = Fin 1.25"
  "L_buoyancy colder_inflow_scenario = Fin 1.25"
  "L_buoyancy no_inflow_scenario = Fin 1.25"
  "L_buoyancy no_inflow_colder_scenario = Fin 1.25"
  "L_buoyancy unbounded_inflow_scenario = Fin 1.25"
  "L_buoyancy unbounded_inflow_colder_scenario = Fin 1.25"
  "L_buoyancy nearly_isothermal_scenario = Fin 1.25"
  "L_buoyancy high_inlet_scenario = Fin 1.25"
  "L_buoyancy unbounded_temperature_scenario = Fin 1.25"
  by (simp_all add: default_fields L_buoyancy_def Let_def)

section \<open>Richardson number\<close>

lemma Ri_raw_cases:
  "Ri_raw s =
     (if js_le (Vjet s) (Fin 0.0001) then PInf
      else if js_lt (dt_vs_tank s) (Fin 0.01) then Fin 0
      else js_div (js_mul (js_mul (js_mul G (beta s)) (dt_vs_tank s)) (L_buoyancy s))
                  (js_pow2 (Vjet s)))"
  by (simp add: Ri_raw_def richardson_def Let_def)

lemma ri_num_cases:
  "ri_num s =
     (if js_le (Vjet s) (Fin 0.0001) then Fin 0
      else if js_lt (dt_vs_tank s) (Fin 0.01) then Fin 0
      else js_mul (js_mul (js_mul G (beta s)) (dt_vs_tank s)) (L_buoyancy s))"
  by (simp add: ri_num_def richardson_def Let_def)

lemma ri_den_cases:
  "ri_den s = (if js_le (Vjet s) (Fin 0.0001) then Fin 0 else js_pow2 (Vjet s))"
  by (simp add: ri_den_def richardson_def Let_def)

lemma nan_warning_in_flags:
  "(nan_warning \<in> set (nan_flags s (volume_flags s initial_flags))) = isNaN (Ri_raw s)"
  by (auto simp add: nan_flags_def volume_flags_def initial_flags_def volume_warning_def
      no_storage_warning_def nan_warning_def Let_def)

text \<open>
  C1 (as stated). In the isothermal case the claim has the numerator \<open>g * beta * dT * L\<close>
  computed and reported in the metrics. With inflow at 22 to 22.005 degrees into a tank at
  22 degrees that product is 0.000012875625, and the reported numerator is 0.
\<close>

theorem isothermal_numerator_counterexample:
  "\<not> js_le (inletVelocity_m_s (metrics (analyzeScenario nearly_isothermal_scenario))) (Fin 0.0001)
   \<and> js_lt (deltaT_inlet_vs_tank (metrics (analyzeScenario nearly_isothermal_scenario))) (Fin 0.01)
   \<and> richardsonNumber (metrics (analyzeScenario nearly_isothermal_scenario)) = Fin 0
   \<and> ri_numerator (metrics (analyzeScenario nearly_isothermal_scenario)) = Fin 0
   \<and> js_mul (js_mul (js_mul G (beta_per_C (metrics (analyzeScenario nearly_isothermal_scenario))))
                     (deltaT_inlet_vs_tank (metrics (analyzeScenario nearly_isothermal_scenario))))
             (ri_lengthScale_m (metrics (analyzeScenario nearly_isothermal_scenario)))
       = Fin 0.0000128756250
   \<and> ri_numerator (metrics (analyzeScenario nearly_isothermal_scenario)) \<noteq>
       js_mul (js_mul (js_mul G (beta_per_C (metrics (analyzeScenario nearly_isothermal_scenario))))
                      (deltaT_inlet_vs_tank (metrics (analyzeScenario nearly_isothermal_scenario))))
              (ri_lengthScale_m (metrics (analyzeScenario nearly_isothermal_scenario)))"
  using velocity_32_9_pi
  by (simp add: analyze_metrics Ri_def Ri_raw_cases ri_num_cases Vjet_nozzle_150 dt_values L_values
      beta_def estimateBetaPerC_def G_def)

text \<open>
  C1 (amended). The Richardson number and its debug metrics follow three cases in
  priority order, with the worst-case temperature difference
  \<open>max |T_inflow_max - T_tank| |T_inflow_min - T_tank|\<close>: an inlet velocity of at most
  0.0001 gives plus infinity; else a temperature difference below 0.01 gives exactly 0,
  with the reported numerator 0 and the reported denominator the squared velocity; else
  the numerator \<open>g * beta * dT * L\<close> and the denominator \<open>V^2\<close> are reported and the
  Richardson number is their quotient, unless the quotient is NaN: then the Richardson
  number is 0 and the validity flags carry the NaN error. (The witness is a scenario in
  which the reset happens.)
\<close>

theorem richardson_three_cases:
  "deltaT_inlet_vs_tank (metrics (analyzeScenario s)) =
     js_max (js_abs (js_sub (temperature_inflow_max_C (water s)) (temperature_tank_initial_C (water s))))
            (js_abs (js_sub (temperature_inflow_min_C (water s)) (temperature_tank_initial_C (water s))))
   \<and> (if js_le (inletVelocity_m_s (metrics (analyzeScenario s))) (Fin 0.0001)
      then richardsonNumber (metrics (analyzeScenario s)) = PInf
      else if js_lt (deltaT_inlet_vs_tank (metrics (analyzeScenario s))) (Fin 0.01)
      then richardsonNumber (metrics (analyzeScenario s)) = Fin 0
         \<and> ri_numerator (metrics (analyzeScenario s)) = Fin 0
         \<and> ri_denominator (metrics (analyzeScenario s)) =
             js_pow2 (inletVelocity_m_s (metrics (analyzeScenario s)))
      else ri_numerator (metrics (analyzeScenario s)) =
             js_mul (js_mul (js_mul G (beta_per_C (metrics (analyzeScenario s))))
                            (deltaT_inlet_vs_tank (metrics (analyzeScenario s))))
                    (ri_lengthScale_m (metrics (analyzeScenario s)))
         \<and> ri_denominator (metrics (analyzeScenario s)) =
             js_pow2 (inletVelocity_m_s (metrics (analyzeScenario s)))
         \<and> richardsonNumber (metrics (analyzeScenario s)) =
             (if isNaN (js_div (ri_numerator (metrics (analyzeScenario s)))
                               (ri_denominator (metrics (analyzeScenario s))))
              then Fin 0
              else js_div (ri_numerator (metrics (analyzeScenario s)))
                          (ri_denominator (metrics (analyzeScenario s))))
         \<and> (nan_warning \<in> set (validityFlags (analyzeScenario s))) =
             isNaN (js_div (ri_numerator (metrics (analyzeScenario s)))
                           (ri_denominator (metrics (analyzeScenario s)))))"
  by (simp add: analyze_metrics analyze_validityFlags nan_warning_in_flags Ri_def Ri_raw_cases
      ri_num_cases ri_den_cases dt_vs_tank_def dt_diff_max_def dt_diff_min_def)

theorem richardson_three_cases_witness:
  "\<not> js_le (inletVelocity_m_s (metrics (analyzeScenario unbounded_temperature_scenario))) (Fin 0.0001)
   \<and> \<not> js_lt (deltaT_inlet_vs_tank (metrics (analyzeScenario unbounded_temperature_scenario))) (Fin 0.01)
   \<and> ri_numerator (metrics (analyzeScenario unbounded_temperature_scenario)) = NaN
   \<and> richardsonNumber (metrics (analyzeScenario unbounded_temperature_scenario)) = Fin 0
   \<and> nan_warning \<in> set (validityFlags (analyzeScenario unbounded_temperature_scenario))"
proof -
  have v: "\<not> js_le (inletVelocity_m_s (metrics (analyzeScenario unbounded_temperature_scenario)))
                   (Fin 0.0001)"
    using velocity_32_9_pi by (simp add: analyze_metrics Vjet_nozzle_150)
  have d: "deltaT_inlet_vs_tank (metrics (analyzeScenario unbounded_temperature_scenario)) = NaN"
    by (simp add: analyze_metrics dt_values)
  have l: "ri_lengthScale_m (metrics (analyzeScenario unbounded_temperature_scenario)) = Fin 1.25"
    by (simp add: analyze_metrics L_values)
  show ?thesis
    using richardson_three_cases [of unbounded_temperature_scenario] v
    by (simp add: d l)
qed

section \<open>Inlet velocity\<close>

lemma computeNozzleArea_Fin:
  "computeNozzleArea (Fin a) = Fin (pi * (a / 1000 / 2) ^ 2)"
  by (simp add: computeNozzleArea_def Math_PI_def Let_def)

lemma computeNozzleArea_PInf: "computeNozzleArea PInf = PInf"
  by (simp add: computeNozzleArea_def Math_PI_def Let_def)

lemma nozzle_area_mono:
  assumes "0 < a" "a < b"
  shows "pi * (a / 1000 / 2) ^ 2 < pi * (b / 1000 / 2) ^ 2"
proof -
  have "a / 1000 / 2 < b / 1000 / 2" using assms by simp
  moreover have "0 \<le> a / 1000 / 2" using assms by simp
  ultimately have "(a / 1000 / 2) ^ 2 < (b / 1000 / 2) ^ 2"
    by (rule power_strict_mono) simp
  then show ?thesis by simp
qed

text \<open>The flow per inlet is \<open>q\<close>; it is divided by the two areas.\<close>

lemma velocity_quotient_mono:
  assumes q: "(\<exists>x. q = Fin x \<and> 0 \<le> x) \<or> q = PInf \<or> q = NaN"
    and "0 < A1"
    and a2: "(\<exists>A2. area2 = Fin A2 \<and> A1 \<le> A2) \<or> area2 = PInf"
  shows "\<not> js_gt (js_div q area2) (js_div q (Fin A1))"
proof -
  consider x where "q = Fin x" "0 \<le> x" | "q = PInf" | "q = NaN" using q by blast
  then show ?thesis
  proof cases
    case 1
    from a2 show ?thesis
    proof
      assume "\<exists>A2. area2 = Fin A2 \<and> A1 \<le> A2"
      then obtain A2 where A2: "area2 = Fin A2" "A1 \<le> A2" by blast
      have "x / A2 \<le> x / A1"
        using \<open>0 \<le> x\<close> \<open>0 < A1\<close> A2(2) by (simp add: frac_le)
      then show ?thesis
        using 1 A2 \<open>0 < A1\<close> by (simp add: js_gt_def not_less)
    next
      assume "area2 = PInf"
      then show ?thesis
        using 1 \<open>0 < A1\<close> by (simp add: js_gt_def not_less)
    qed
  next
    case 2
    from a2 \<open>0 < A1\<close> show ?thesis
      by (auto simp add: 2 js_gt_def)
  next
    case 3
    then show ?thesis by (simp add: js_gt_def)
  qed
qed

lemma flow_per_inlet_sign:
  assumes "js_ge flow (Fin 0)" and "\<not> js_le cnt (Fin 0)"
  shows "(\<exists>x. js_div (js_div flow (Fin 1000)) cnt = Fin x \<and> 0 \<le> x)
         \<or> js_div (js_div flow (Fin 1000)) cnt = PInf
         \<or> js_div (js_div flow (Fin 1000)) cnt = NaN"
proof -
  from nonnegative_number [OF assms(1)] show ?thesis
  proof
    assume "\<exists>a. flow = Fin a \<and> 0 \<le> a"
    then obtain a where a: "flow = Fin a" "0 \<le> a" by blast
    show ?thesis using a assms(2) by (cases cnt) (simp_all add: not_le)
  next
    assume "flow = PInf"
    then show ?thesis using assms(2) by (cases cnt) (simp_all add: not_le)
  qed
qed

text \<open>
  C5 (as stated). For every flow rate and inlet count and all nozzle diameters
  \<open>0 < d1 < d2\<close>, the inlet velocity for \<open>d2\<close> is strictly below the one for \<open>d1\<close>.
  For the diameters 150 and 300 this fails without flow (both velocities are 0) and with
  an infinite flow (both are infinite); with a negative flow the velocity for the larger
  diameter is the greater one.
\<close>

theorem velocity_strictness_counterexample:
  "js_lt (Fin 150) (Fin 300) \<and> js_gt (Fin 150) (Fin 0)
   \<and> \<not> js_lt (computeInletVelocity (Fin 0) (computeNozzleArea (Fin 300)) (Fin 1))
             (computeInletVelocity (Fin 0) (computeNozzleArea (Fin 150)) (Fin 1))
   \<and> \<not> js_lt (computeInletVelocity PInf (computeNozzleArea (Fin 300)) (Fin 1))
             (computeInletVelocity PInf (computeNozzleArea (Fin 150)) (Fin 1))
   \<and> \<not> js_lt (computeInletVelocity (Fin (- 20)) (computeNozzleArea (Fin 300)) (Fin 1))
             (computeInletVelocity (Fin (- 20)) (computeNozzleArea (Fin 150)) (Fin 1))
   \<and> js_gt (computeInletVelocity (Fin (- 20)) (computeNozzleArea (Fin 300)) (Fin 1))
           (computeInletVelocity (Fin (- 20)) (computeNozzleArea (Fin 150)) (Fin 1))"
proof -
  have z: "computeInletVelocity (Fin 0) (computeNozzleArea (Fin 300)) (Fin 1) = Fin 0"
    "computeInletVelocity (Fin 0) (computeNozzleArea (Fin 150)) (Fin 1) = Fin 0"
    by (simp_all add: computeNozzleArea_Fin computeInletVelocity_def Let_def)
  have i: "computeInletVelocity PInf (computeNozzleArea (Fin 300)) (Fin 1) = PInf"
    "computeInletVelocity PInf (computeNozzleArea (Fin 150)) (Fin 1) = PInf"
    by (simp_all add: computeNozzleArea_Fin computeInletVelocity_def Let_def pi_not_le_zero
        mult_le_0_iff)
  have n: "computeInletVelocity (Fin (- 20)) (computeNozzleArea (Fin 300)) (Fin 1)
             = Fin (- (8 / (9 * pi)))"
    "computeInletVelocity (Fin (- 20)) (computeNozzleArea (Fin 150)) (Fin 1)
             = Fin (- (32 / (9 * pi)))"
    by (simp_all add: computeNozzleArea_Fin computeInletVelocity_def Let_def power2_eq_square
        field_simps pi_not_le_zero)
  have "8 / (9 * pi) < 32 / (9 * pi)"
    by (simp add: divide_strict_right_mono)
  then show ?thesis by (simp add: z i n js_gt_def)
qed

text \<open>
  C5 (amended). For every flow rate that is not negative, every inlet count, and all
  nozzle diameters \<open>0 < d1 < d2\<close> such that the nozzle area computed for \<open>d1\<close> is
  positive, the inlet velocity computed for \<open>d2\<close> is never greater than the inlet
  velocity computed for \<open>d1\<close>. (With exact arithmetic a positive diameter has a positive
  area; on doubles the square of a tiny diameter underflows to 0, and the guard of
  \<^verbatim>\<open>computeInletVelocity\<close> then returns the velocity 0.)
\<close>

theorem velocity_not_increasing_with_diameter:
  assumes "js_ge flow (Fin 0)"
    and "js_gt d1 (Fin 0)"
    and "js_lt d1 d2"
    and "js_gt (computeNozzleArea d1) (Fin 0)"
  shows "\<not> js_gt (computeInletVelocity flow (computeNozzleArea d2) cnt)
                 (computeInletVelocity flow (computeNozzleArea d1) cnt)"
proof -
  from positive_number [OF assms(2)] assms(3) obtain a where a: "d1 = Fin a" "0 < a"
    by (cases d1) auto
  let ?A1 = "pi * (a / 1000 / 2) ^ 2"
  have A1: "computeNozzleArea d1 = Fin ?A1" "0 < ?A1"
    using a by (simp_all add: computeNozzleArea_Fin)
  have A2: "(\<exists>A2. computeNozzleArea d2 = Fin A2 \<and> ?A1 \<le> A2) \<or> computeNozzleArea d2 = PInf"
    using above_finite [of a d2] assms(3) a nozzle_area_mono [of a]
    by (auto simp add: computeNozzleArea_Fin computeNozzleArea_PInf intro: less_imp_le)
  have g2: "\<not> js_le (computeNozzleArea d2) (Fin 0)"
    using A2 A1(2) by auto
  show ?thesis
  proof (cases "js_le cnt (Fin 0)")
    case True
    then show ?thesis by (simp add: computeInletVelocity_def js_gt_def)
  next
    case False
    have "\<not> js_gt (js_div (js_div (js_div flow (Fin 1000)) cnt) (computeNozzleArea d2))
                 (js_div (js_div (js_div flow (Fin 1000)) cnt) (Fin ?A1))"
      using flow_per_inlet_sign [OF assms(1) False] A1(2) A2
      by (rule velocity_quotient_mono)
    then show ?thesis
      using False g2 A1 by (simp add: computeInletVelocity_def Let_def not_le)
  qed
qed

theorem velocity_not_increasing_with_diameter_witness:
  "js_ge (Fin 20) (Fin 0) \<and> js_gt (Fin 150) (Fin 0) \<and> js_lt (Fin 150) (Fin 300)
   \<and> js_gt (computeNozzleArea (Fin 150)) (Fin 0)
   \<and> computeInletVelocity (Fin 20) (computeNozzleArea (Fin 300)) (Fin 1) = Fin (8 / (9 * pi))
   \<and> computeInletVelocity (Fin 20) (computeNozzleArea (Fin 150)) (Fin 1) = Fin (32 / (9 * pi))
   \<and> \<not> js_gt (computeInletVelocity (Fin 20) (computeNozzleArea (Fin 300)) (Fin 1))
             (computeInletVelocity (Fin 20) (computeNozzleArea (Fin 150)) (Fin 1))"
proof -
  have h: "js_ge (Fin 20) (Fin 0)" "js_gt (Fin 150) (Fin 0)" "js_lt (Fin 150) (Fin 300)"
    "js_gt (computeNozzleArea (Fin 150)) (Fin 0)"
    by (simp_all add: js_ge_def js_gt_def computeNozzleArea_Fin)
  have v: "computeInletVelocity (Fin 20) (computeNozzleArea (Fin 300)) (Fin 1) = Fin (8 / (9 * pi))"
    "computeInletVelocity (Fin 20) (computeNozzleArea (Fin 150)) (Fin 1) = Fin (32 / (9 * pi))"
    by (simp_all add: computeNozzleArea_Fin computeInletVelocity_def Let_def power2_eq_square
        field_simps pi_not_le_zero)
  from velocity_not_increasing_with_diameter [OF h, of "Fin 1"] h v show ?thesis by simp
qed

lemma js_max_floor:
  "js_max x (Fin c) = NaN \<or> js_max x (Fin c) = PInf \<or> (\<exists>l. js_max x (Fin c) = Fin l \<and> c \<le> l)"
  by (cases x) simp_all

lemma L_buoyancy_cases:
  "L_buoyancy s = NaN \<or> L_buoyancy s = PInf \<or> (\<exists>l. L_buoyancy s = Fin l \<and> 0.05 \<le> l)"
  unfolding L_buoyancy_def Let_def by (rule js_max_floor)

lemma not_small_number:
  "\<not> js_le V (Fin c) \<Longrightarrow> (\<exists>v. V = Fin v \<and> c < v) \<or> V = PInf \<or> V = NaN"
  by (cases V) (simp_all add: not_le)

text \<open>A quotient with the NaN reset, for two numerators in order and one denominator.\<close>

lemma reset_quotient_mono:
  assumes n: "(\<exists>x. n1 = Fin x \<and> ((\<exists>y. n2 = Fin y \<and> x \<le> y) \<or> n2 = PInf))
              \<or> (n1 = PInf \<and> n2 = PInf) \<or> (n1 = NaN \<and> n2 = NaN)"
    and d: "(\<exists>v. den = Fin v \<and> 0 < v) \<or> den = PInf \<or> den = NaN"
  shows "\<not> js_lt (if isNaN (js_div n2 den) then Fin 0 else js_div n2 den)
                 (if isNaN (js_div n1 den) then Fin 0 else js_div n1 den)"
proof -
  consider v where "den = Fin v" "0 < v" | "den = PInf" | "den = NaN" using d by blast
  then show ?thesis
  proof cases
    case 1
    consider x y where "n1 = Fin x" "n2 = Fin y" "x \<le> y" | x where "n1 = Fin x" "n2 = PInf"
      | "n1 = PInf" "n2 = PInf" | "n1 = NaN" "n2 = NaN"
      using n by blast
    then show ?thesis
    proof cases
      case 1
      have "x / v \<le> y / v" using \<open>x \<le> y\<close> \<open>0 < v\<close> by (simp add: divide_right_mono)
      then show ?thesis using 1 \<open>den = Fin v\<close> \<open>0 < v\<close> by (simp add: not_less)
    qed (use 1 in simp_all)
  next
    case 2
    from n show ?thesis by (auto simp add: 2)
  next
    case 3
    then show ?thesis by simp
  qed
qed

lemma numerator_mono:
  assumes "0 < c" "0 < a"
    and b: "(\<exists>b. d2 = Fin b \<and> a < b) \<or> d2 = PInf"
    and L: "L = NaN \<or> L = PInf \<or> (\<exists>l. L = Fin l \<and> 0.05 \<le> l)"
  shows "(\<exists>x. js_mul (js_mul (Fin c) (Fin a)) L = Fin x
              \<and> ((\<exists>y. js_mul (js_mul (Fin c) d2) L = Fin y \<and> x \<le> y)
                  \<or> js_mul (js_mul (Fin c) d2) L = PInf))
         \<or> (js_mul (js_mul (Fin c) (Fin a)) L = PInf \<and> js_mul (js_mul (Fin c) d2) L = PInf)
         \<or> (js_mul (js_mul (Fin c) (Fin a)) L = NaN \<and> js_mul (js_mul (Fin c) d2) L = NaN)"
proof -
  consider "L = NaN" | "L = PInf" | l where "L = Fin l" "0.05 \<le> l" using L by blast
  then show ?thesis
  proof cases
    case 1
    then show ?thesis by simp
  next
    case 2
    have "0 < c * a" using \<open>0 < c\<close> \<open>0 < a\<close> by simp
    moreover have "0 < c * b" if "a < b" for b
      using that \<open>0 < c\<close> \<open>0 < a\<close> by simp
    ultimately show ?thesis
      using b \<open>0 < c\<close> 2 by auto

  next
    case 3
    then have l: "0 < l" by simp
    from b show ?thesis
    proof
      assume "\<exists>b. d2 = Fin b \<and> a < b"
      then obtain b where b: "d2 = Fin b" "a < b" by blast
      have "c * a \<le> c * b" using \<open>0 < c\<close> b(2) by simp
      then have "c * a * l \<le> c * b * l"
        using l by (intro mult_right_mono) simp_all
      then show ?thesis using 3 b by simp
    next
      assume "d2 = PInf"
      then show ?thesis using 3 l \<open>0 < c\<close> by simp
    qed
  qed
qed

section \<open>Richardson number and temperature difference\<close>

text \<open>
  C6 (as stated). For every fixed inlet velocity and length scale and temperature
  differences \<open>0.01 \<le> dT1 < dT2\<close>, the Richardson number for \<open>dT2\<close> is strictly
  greater. Without inflow the velocity is 0 and the Richardson number is plus infinity
  for the temperature differences 7 and 12; with an infinite inflow the velocity is
  infinite and the Richardson number is 0 for both.
\<close>

theorem richardson_strictness_counterexample:
  "inletVelocity_m_s (metrics (analyzeScenario no_inflow_scenario))
     = inletVelocity_m_s (metrics (analyzeScenario no_inflow_colder_scenario))
   \<and> ri_lengthScale_m (metrics (analyzeScenario no_inflow_scenario))
     = ri_lengthScale_m (metrics (analyzeScenario no_inflow_colder_scenario))
   \<and> js_ge (deltaT_inlet_vs_tank (metrics (analyzeScenario no_inflow_scenario))) (Fin 0.01)
   \<and> js_lt (deltaT_inlet_vs_tank (metrics (analyzeScenario no_inflow_scenario)))
           (deltaT_inlet_vs_tank (metrics (analyzeScenario no_inflow_colder_scenario)))
   \<and> richardsonNumber (metrics (analyzeScenario no_inflow_scenario)) = PInf
   \<and> richardsonNumber (metrics (analyzeScenario no_inflow_colder_scenario)) = PInf
   \<and> \<not> js_gt (richardsonNumber (metrics (analyzeScenario no_inflow_colder_scenario)))
             (richardsonNumber (metrics (analyzeScenario no_inflow_scenario)))
   \<and> inletVelocity_m_s (metrics (analyzeScenario unbounded_inflow_scenario)) = PInf
   \<and> inletVelocity_m_s (metrics (analyzeScenario unbounded_inflow_colder_scenario)) = PInf
   \<and> ri_lengthScale_m (metrics (analyzeScenario unbounded_inflow_scenario))
     = ri_lengthScale_m (metrics (analyzeScenario unbounded_inflow_colder_scenario))
   \<and> js_ge (deltaT_inlet_vs_tank (metrics (analyzeScenario unbounded_inflow_scenario))) (Fin 0.01)
   \<and> js_lt (deltaT_inlet_vs_tank (metrics (analyzeScenario unbounded_inflow_scenario)))
           (deltaT_inlet_vs_tank (metrics (analyzeScenario unbounded_inflow_colder_scenario)))
   \<and> richardsonNumber (metrics (analyzeScenario unbounded_inflow_scenario)) = Fin 0
   \<and> richardsonNumber (metrics (analyzeScenario unbounded_inflow_colder_scenario)) = Fin 0
   \<and> \<not> js_gt (richardsonNumber (metrics (analyzeScenario unbounded_inflow_colder_scenario)))
             (richardsonNumber (metrics (analyzeScenario unbounded_inflow_scenario)))"
  by (simp add: analyze_metrics Ri_def Ri_raw_cases Vjet_no_inflow Vjet_unbounded_inflow
      dt_values L_values js_gt_def js_ge_def beta_def estimateBetaPerC_def G_def)

text \<open>
  C6 (amended). For two scenarios with the same inlet velocity and the same length scale,
  and worst-case temperature differences \<open>0.01 \<le> dT1 < dT2\<close>, the Richardson number
  of the second is never less than that of the first.
\<close>

theorem richardson_not_decreasing_with_deltaT:
  assumes "inletVelocity_m_s (metrics (analyzeScenario s1))
             = inletVelocity_m_s (metrics (analyzeScenario s2))"
    and "ri_lengthScale_m (metrics (analyzeScenario s1))
             = ri_lengthScale_m (metrics (analyzeScenario s2))"
    and "js_ge (deltaT_inlet_vs_tank (metrics (analyzeScenario s1))) (Fin 0.01)"
    and "js_lt (deltaT_inlet_vs_tank (metrics (analyzeScenario s1)))
               (deltaT_inlet_vs_tank (metrics (analyzeScenario s2)))"
  shows "\<not> js_lt (richardsonNumber (metrics (analyzeScenario s2)))
                 (richardsonNumber (metrics (analyzeScenario s1)))"
proof -
  have V: "Vjet s1 = Vjet s2" and L: "L_buoyancy s1 = L_buoyancy s2"
    and d1: "js_ge (dt_vs_tank s1) (Fin 0.01)" and d12: "js_lt (dt_vs_tank s1) (dt_vs_tank s2)"
    using assms by (simp_all add: analyze_metrics)
  have b: "beta s1 = Fin 0.00021" "beta s2 = Fin 0.00021"
    by (simp_all add: beta_def estimateBetaPerC_def)
  obtain a where a: "dt_vs_tank s1 = Fin a" "0.01 \<le> a"
    using d1 d12 by (cases "dt_vs_tank s1") (simp_all add: js_ge_def)
  have d2: "(\<exists>b. dt_vs_tank s2 = Fin b \<and> a < b) \<or> dt_vs_tank s2 = PInf"
    using above_finite [of a "dt_vs_tank s2"] d12 a by simp
  have n1: "\<not> js_lt (dt_vs_tank s1) (Fin 0.01)" using a by (simp add: not_less)
  have n2: "\<not> js_lt (dt_vs_tank s2) (Fin 0.01)" using d2 a by auto
  show ?thesis
  proof (cases "js_le (Vjet s2) (Fin 0.0001)")
    case True
    then show ?thesis by (simp add: analyze_metrics Ri_def Ri_raw_cases V)
  next
    case False
    have den: "(\<exists>v. js_pow2 (Vjet s2) = Fin v \<and> 0 < v) \<or> js_pow2 (Vjet s2) = PInf
               \<or> js_pow2 (Vjet s2) = NaN"
      using not_small_number [OF False] by auto
    have c: "js_mul G (Fin 0.00021) = Fin (9.81 * 0.00021)" by (simp add: G_def)
    have "0 < a" using a(2) by simp
    have num: "(\<exists>x. js_mul (js_mul (Fin (9.81 * 0.00021)) (Fin a)) (L_buoyancy s2) = Fin x
              \<and> ((\<exists>y. js_mul (js_mul (Fin (9.81 * 0.00021)) (dt_vs_tank s2)) (L_buoyancy s2) = Fin y
                       \<and> x \<le> y)
                  \<or> js_mul (js_mul (Fin (9.81 * 0.00021)) (dt_vs_tank s2)) (L_buoyancy s2) = PInf))
         \<or> (js_mul (js_mul (Fin (9.81 * 0.00021)) (Fin a)) (L_buoyancy s2) = PInf
            \<and> js_mul (js_mul (Fin (9.81 * 0.00021)) (dt_vs_tank s2)) (L_buoyancy s2) = PInf)
         \<or> (js_mul (js_mul (Fin (9.81 * 0.00021)) (Fin a)) (L_buoyancy s2) = NaN
            \<and> js_mul (js_mul (Fin (9.81 * 0.00021)) (dt_vs_tank s2)) (L_buoyancy s2) = NaN)"
      by (rule numerator_mono [OF _ \<open>0 < a\<close> d2 L_buoyancy_cases]) simp
    have r1: "Ri s1 =
        (if isNaN (js_div (js_mul (js_mul (Fin (9.81 * 0.00021)) (Fin a)) (L_buoyancy s2))
                          (js_pow2 (Vjet s2)))
         then Fin 0
         else js_div (js_mul (js_mul (Fin (9.81 * 0.00021)) (Fin a)) (L_buoyancy s2))
                     (js_pow2 (Vjet s2)))"
      using False n1 unfolding Ri_def Ri_raw_cases V L b c a(1) by simp
    have r2: "Ri s2 =
        (if isNaN (js_div (js_mul (js_mul (Fin (9.81 * 0.00021)) (dt_vs_tank s2)) (L_buoyancy s2))
                          (js_pow2 (Vjet s2)))
         then Fin 0
         else js_div (js_mul (js_mul (Fin (9.81 * 0.00021)) (dt_vs_tank s2)) (L_buoyancy s2))
                     (js_pow2 (Vjet s2)))"
      using False n2 unfolding Ri_def Ri_raw_cases b c by simp
    have "\<not> js_lt (Ri s2) (Ri s1)"
      unfolding r1 r2 using num den by (rule reset_quotient_mono)
    then show ?thesis by (simp add: analyze_metrics)
  qed
qed

theorem richardson_not_decreasing_with_deltaT_witness:
  "inletVelocity_m_s (metrics (analyzeScenario createDefaultScenario))
     = inletVelocity_m_s (metrics (analyzeScenario colder_inflow_scenario))
   \<and> ri_lengthScale_m (metrics (analyzeScenario createDefaultScenario))
     = ri_lengthScale_m (metrics (analyzeScenario colder_inflow_scenario))
   \<and> js_ge (deltaT_inlet_vs_tank (metrics (analyzeScenario createDefaultScenario))) (Fin 0.01)
   \<and> js_lt (deltaT_inlet_vs_tank (metrics (analyzeScenario createDefaultScenario)))
           (deltaT_inlet_vs_tank (metrics (analyzeScenario colder_inflow_scenario)))
   \<and> \<not> js_lt (richardsonNumber (metrics (analyzeScenario colder_inflow_scenario)))
             (richardsonNumber (metrics (analyzeScenario createDefaultScenario)))"
proof -
  have h1: "inletVelocity_m_s (metrics (analyzeScenario createDefaultScenario))
     = inletVelocity_m_s (metrics (analyzeScenario colder_inflow_scenario))"
    by (simp add: analyze_metrics Vjet_nozzle_150)
  have h2: "ri_lengthScale_m (metrics (analyzeScenario createDefaultScenario))
     = ri_lengthScale_m (metrics (analyzeScenario colder_inflow_scenario))"
    by (simp add: analyze_metrics L_values)
  have h3: "js_ge (deltaT_inlet_vs_tank (metrics (analyzeScenario createDefaultScenario))) (Fin 0.01)"
    by (simp add: analyze_metrics dt_values js_ge_def)
  have h4: "js_lt (deltaT_inlet_vs_tank (metrics (analyzeScenario createDefaultScenario)))
           (deltaT_inlet_vs_tank (metrics (analyzeScenario colder_inflow_scenario)))"
    by (simp add: analyze_metrics dt_values)
  from richardson_not_decreasing_with_deltaT [OF h1 h2 h3 h4] h1 h2 h3 h4
  show ?thesis by simp
qed

section \<open>Horizontal layout score\<close>

lemma clamp_cases:
  "js_max (Fin 0) (js_min (Fin 100) h) = NaN
   \<or> (\<exists>x. js_max (Fin 0) (js_min (Fin 100) h) = Fin x \<and> 0 \<le> x \<and> x \<le> 100)"
  by (cases h) simp_all

lemma clamp_NaN: "(js_max (Fin 0) (js_min (Fin 100) h) = NaN) = (h = NaN)"
  by (cases h) simp_all

lemma score_clamped_unless_NaN:
  "(hScore_sum s \<noteq> NaN \<longrightarrow>
      js_le (Fin 0) (horizontalRiskScore (metrics (analyzeScenario s)))
      \<and> js_le (horizontalRiskScore (metrics (analyzeScenario s))) (Fin 100))
   \<and> (hScore_sum s = NaN \<longrightarrow> horizontalRiskScore (metrics (analyzeScenario s)) = NaN)"
  using clamp_cases [of "hScore_sum s"] clamp_NaN [of "hScore_sum s"]
  by (auto simp add: analyze_metrics hScore_def)

text \<open>
  C4. For every scenario, whatever the configured weights and credits, the horizontal risk
  score of the returned metrics lies between 0 and 100. \<open>score_clamped_unless_NaN\<close>:
  this holds whenever the sum of the weights is not NaN. The code at an input where it is:
  with the default layout and an infinite radial-orientation risk and opposite-outlet
  credit the sum is \<open>Infinity - Infinity\<close>, the clamp returns NaN, which is neither at
  least 0 nor at most 100, and the horizontal status is PASS.
\<close>

theorem score_NaN_with_infinite_weights:
  "risk_orient_radial (options infinite_weights_scenario) = PInf
   \<and> credit_outlet_opposite (options infinite_weights_scenario) = PInf
   \<and> horizontalRiskScore (metrics (analyzeScenario infinite_weights_scenario)) = NaN
   \<and> \<not> js_le (Fin 0) (horizontalRiskScore (metrics (analyzeScenario infinite_weights_scenario)))
   \<and> \<not> js_le (horizontalRiskScore (metrics (analyzeScenario infinite_weights_scenario))) (Fin 100)
   \<and> horizontalStatus (analyzeScenario infinite_weights_scenario) = PASS"
proof -
  have "hScore_sum infinite_weights_scenario = NaN"
    by (simp add: hScore_sum_def distInOut_def default_fields js_sub_def js_ge_def js_gt_def
        Let_def)
  then have h: "hScore infinite_weights_scenario = NaN"
    by (simp add: hScore_def)
  then show ?thesis
    by (simp add: analyze_metrics analyze_horizontalStatus horizontal_def js_ge_def)
      (simp add: default_fields)
qed

section \<open>Validity flags\<close>

lemma volume_warning_in_flags:
  "(volume_warning s \<in> set (nan_flags s (volume_flags s initial_flags)))
     = js_gt (v_eff_m3 s) (js_mul (v_geom_m3 s) (Fin 1.01))"
  by (auto simp add: nan_flags_def volume_flags_def initial_flags_def volume_warning_def
      no_storage_warning_def nan_warning_def Let_def)

lemma volumes_slightly_overfull:
  "v_eff_m3 slightly_overfull_scenario = Fin 395"
  "v_geom_m3 slightly_overfull_scenario = Fin (125 * pi)"
  by (simp_all add: default_fields v_eff_m3_def v_oper_m3_def v_reserve_m3_def v_geom_m3_def
      computeTankVolumeCyl_def Math_PI_def)

text \<open>
  C7 (as stated). Whenever operating plus reserve volume exceeds the geometric volume
  \<open>pi / 4 * D^2 * H\<close>, the validity flags contain the advisory about the volumes. In the
  default tank (10 m by 5 m, about 392.7 cubic metres) with 350 + 45 = 395 specified, the
  result carries the four initial flags and no other.
\<close>

theorem slightly_overfull_counterexample:
  "operating_storage_kL (tank slightly_overfull_scenario) = Fin 350
   \<and> reserve_unusable_kL (tank slightly_overfull_scenario) = Fin 45
   \<and> diameter_m (tank slightly_overfull_scenario) = Fin 10
   \<and> water_depth_m (tank slightly_overfull_scenario) = Fin 5
   \<and> (350 + 45 :: real) > pi / 4 * 10 ^ 2 * 5
   \<and> validityFlags (analyzeScenario slightly_overfull_scenario) = initial_flags"
proof -
  have a: "125 * pi < 395" using pi_less_315 by simp
  have b: "395 \<le> 125 * pi * 1.01" using pi_gt_314 by simp
  have c: "\<not> isNaN (Ri_raw slightly_overfull_scenario)"
    using velocity_32_9_pi
    by (simp add: Ri_raw_cases Vjet_nozzle_150)
      (simp add: default_fields dt_vs_tank_def dt_diff_max_def dt_diff_min_def js_sub_def
        L_buoyancy_def beta_def estimateBetaPerC_def G_def Let_def)
  have "(350 + 45 :: real) > pi / 4 * 10 ^ 2 * 5"
    using a by simp
  moreover have "validityFlags (analyzeScenario slightly_overfull_scenario) = initial_flags"
    using b c by (simp add: analyze_validityFlags nan_flags_def volume_flags_def
        volumes_slightly_overfull Let_def js_gt_def not_less)
  ultimately show ?thesis by (simp add: default_fields)
qed

text \<open>
  C7 (amended). Whenever operating plus reserve volume exceeds the geometric volume
  \<open>pi / 4 * D^2 * H\<close> by more than one percent, the result (which every scenario has)
  lists among its validity flags the advisory that the specified volumes exceed the
  geometric capacity.
\<close>

theorem volume_warning_flag:
  assumes "diameter_m (tank s) = Fin D" and "water_depth_m (tank s) = Fin H"
    and "operating_storage_kL (tank s) = Fin v" and "reserve_unusable_kL (tank s) = Fin r"
    and "v + r > pi / 4 * D ^ 2 * H * 1.01"
  shows "volume_warning s \<in> set (validityFlags (analyzeScenario s))
     \<and> volume_warning s =
        [Txt ''Warning: Specified volumes ('',
         ToFixed 0 (tankVolume_total_effective_m3 (metrics (analyzeScenario s))),
         Txt ''m^3) exceed geometric capacity ('',
         ToFixed 0 (tankVolume_geom_m3 (metrics (analyzeScenario s))), Txt ''m^3).'']"
proof -
  have e: "v_eff_m3 s = Fin (max 0 v + max 0 r)"
    using assms by (simp add: v_eff_m3_def v_oper_m3_def v_reserve_m3_def)
  have g: "v_geom_m3 s = Fin (pi * D ^ 2 / 4 * H)"
    using assms by (simp add: v_geom_m3_def computeTankVolumeCyl_def Math_PI_def)
  have "v + r \<le> max 0 v + max 0 r" by simp
  moreover have "pi * D ^ 2 / 4 * H * 1.01 = pi / 4 * D ^ 2 * H * 1.01" by simp
  ultimately have "pi * D ^ 2 / 4 * H * 1.01 < max 0 v + max 0 r"
    using assms(5) by linarith
  then have "js_gt (v_eff_m3 s) (js_mul (v_geom_m3 s) (Fin 1.01))"
    by (simp add: e g js_gt_def)
  then show ?thesis
    by (simp add: analyze_validityFlags volume_warning_in_flags analyze_metrics)
      (simp add: volume_warning_def)
qed

theorem volume_warning_flag_witness:
  "diameter_m (tank overfull_scenario) = Fin 10 \<and> water_depth_m (tank overfull_scenario) = Fin 5
   \<and> operating_storage_kL (tank overfull_scenario) = Fin 350
   \<and> reserve_unusable_kL (tank overfull_scenario) = Fin 100
   \<and> (350 + 100 :: real) > pi / 4 * 10 ^ 2 * 5 * 1.01
   \<and> volume_warning overfull_scenario \<in> set (validityFlags (analyzeScenario overfull_scenario))"
proof -
  have f: "diameter_m (tank overfull_scenario) = Fin 10"
    "water_depth_m (tank overfull_scenario) = Fin 5"
    "operating_storage_kL (tank overfull_scenario) = Fin 350"
    "reserve_unusable_kL (tank overfull_scenario) = Fin 100"
    by (simp_all add: default_fields)
  have "125 * pi * 1.01 < 450" using pi_less_315 by simp
  then have h: "(350 + 100 :: real) > pi / 4 * 10 ^ 2 * 5 * 1.01" by simp
  from conjunct1 [OF volume_warning_flag [OF f h]] f h show ?thesis by simp
qed

section \<open>Recommendations\<close>

text \<open>Only the first statement of the recommendation section adds a recommendation with
  the identifier \<open>rec-nozzle\<close>.\<close>

lemma nozzle_elevation_recs:
  "filter ((=) ''rec-nozzle'' \<circ> rec_id) (elevation_recs s recs)
     = filter ((=) ''rec-nozzle'' \<circ> rec_id) recs"
  by (simp add: elevation_recs_def Let_def)

lemma nozzle_momentum_check:
  "filter ((=) ''rec-nozzle'' \<circ> rec_id) (snd (momentum_check s (vs, recs)))
     = filter ((=) ''rec-nozzle'' \<circ> rec_id) recs"
  by (simp add: momentum_check_def)

lemma nozzle_stratification_check:
  "filter ((=) ''rec-nozzle'' \<circ> rec_id) (snd (stratification_check s (vs, recs)))
     = filter ((=) ''rec-nozzle'' \<circ> rec_id) recs"
  by (simp add: stratification_check_def)

lemma nozzle_turnover_check:
  "filter ((=) ''rec-nozzle'' \<circ> rec_id) (snd (turnover_check s (vs, recs)))
     = filter ((=) ''rec-nozzle'' \<circ> rec_id) recs"
  by (simp add: turnover_check_def)

lemma nozzle_horizontal_recs:
  "filter ((=) ''rec-nozzle'' \<circ> rec_id) (horizontal_recs s recs)
     = filter ((=) ''rec-nozzle'' \<circ> rec_id) recs"
  by (simp add: horizontal_recs_def Let_def)

lemma nozzle_advice_recs:
  "filter ((=) ''rec-nozzle'' \<circ> rec_id) (advice_recs s vs recs)
     = filter ((=) ''rec-nozzle'' \<circ> rec_id) recs
       @ (if js_lt (Vjet s) (v_target s) then [nozzle_rec s] else [])"
  by (simp add: advice_recs_def nozzle_rec_def Let_def)

lemma nozzle_vertical:
  "filter ((=) ''rec-nozzle'' \<circ> rec_id) (snd (vertical s recs))
     = filter ((=) ''rec-nozzle'' \<circ> rec_id) recs"
proof -
  obtain v1 r1 where m: "momentum_check s (PASS, recs) = (v1, r1)"
    by (cases "momentum_check s (PASS, recs)")
  obtain v2 r2 where st: "stratification_check s (v1, r1) = (v2, r2)"
    by (cases "stratification_check s (v1, r1)")
  have "filter ((=) ''rec-nozzle'' \<circ> rec_id) r1 = filter ((=) ''rec-nozzle'' \<circ> rec_id) recs"
    using nozzle_momentum_check [of s PASS recs] by (simp add: m)
  moreover have "filter ((=) ''rec-nozzle'' \<circ> rec_id) r2 = filter ((=) ''rec-nozzle'' \<circ> rec_id) r1"
    using nozzle_stratification_check [of s v1 r1] by (simp add: st)
  ultimately show ?thesis
    using nozzle_turnover_check [of s v2 r2] by (simp add: vertical_def m st)
qed

lemma nozzle_recommendations:
  "filter ((=) ''rec-nozzle'' \<circ> rec_id) (recommendations (analyzeScenario s))
     = (if js_lt (Vjet s) (v_target s) then [nozzle_rec s] else [])"
  by (simp add: analyze_recommendations nozzle_advice_recs nozzle_horizontal_recs
      nozzle_vertical nozzle_elevation_recs)

text \<open>
  C9 (as stated). Whenever the inlet velocity is below the target velocity, the
  recommendations contain a nozzle-resize recommendation whose diameter is the square
  root of \<open>4 * q_per_inlet / (pi * target velocity)\<close>. With the default scenario and an
  inflow of -20 the velocity is negative, hence below the target 0.8, and the one
  nozzle-resize recommendation of the result carries NaN (the square root of a negative
  number), not a diameter.
\<close>

theorem negative_inflow_counterexample:
  "js_lt (inletVelocity_m_s (metrics (analyzeScenario negative_inflow_scenario)))
         (v_target negative_inflow_scenario)
   \<and> filter ((=) ''rec-nozzle'' \<circ> rec_id) (recommendations (analyzeScenario negative_inflow_scenario))
     = [\<lparr>rec_id = ''rec-nozzle'', rec_type = type_design,
         message = [Txt ''To achieve '', ToStr (Fin 0.8),
                    Txt '' m/s, reduce nozzle diameter to ~'', ToFixed 0 NaN, Txt ''mm.''],
         priority = prio_high\<rparr>]"
proof -
  have vt: "v_target negative_inflow_scenario = Fin 0.8"
    by (simp add: v_target_def default_fields)
  have "0 < 32 / (9 * pi)" by simp
  then have "- (32 / (9 * pi)) < 0.8" by linarith
  then have v: "js_lt (Vjet negative_inflow_scenario) (v_target negative_inflow_scenario)"
    unfolding vt Vjet_negative_inflow js_lt.simps .
  have "- (2 / 25) / (pi * (4 / 5)) < 0"
    by (simp add: divide_neg_pos)
  then have d: "max_d_m negative_inflow_scenario = NaN"
    by (simp add: max_d_m_def q_per_inlet_def q_m3s_def vt Math_PI_def)
      (simp add: default_fields)
  show ?thesis
    using v by (simp add: analyze_metrics nozzle_recommendations nozzle_rec_def d vt)
qed

lemma velocity_sign:
  assumes "0 \<le> f"
  shows "(\<exists>x. computeInletVelocity (Fin f) area cnt = Fin x \<and> 0 \<le> x)
         \<or> computeInletVelocity (Fin f) area cnt = NaN"
proof (cases "js_le area (Fin 0) \<or> js_le cnt (Fin 0)")
  case True
  then show ?thesis by (simp add: computeInletVelocity_def)
next
  case False
  then have a: "\<not> js_le area (Fin 0)" and c: "\<not> js_le cnt (Fin 0)" by simp_all
  have q: "(\<exists>x. js_div (Fin (f / 1000)) cnt = Fin x \<and> 0 \<le> x) \<or> js_div (Fin (f / 1000)) cnt = NaN"
    using c assms by (cases cnt) (simp_all add: not_le)
  have "(\<exists>x. js_div (js_div (Fin (f / 1000)) cnt) area = Fin x \<and> 0 \<le> x)
        \<or> js_div (js_div (Fin (f / 1000)) cnt) area = NaN"
    using q a by (cases area) (auto simp add: not_le)
  then show ?thesis using False by (simp add: computeInletVelocity_def Let_def)
qed

text \<open>
  C9 (amended). Whenever the inlet velocity is below the target velocity and the flow is
  not negative (flow, inlet count and target velocity being finite numbers), the
  recommendations contain the nozzle-resize recommendation, whose diameter is the square
  root of \<open>4 * q_per_inlet / (pi * target velocity)\<close> (shown in millimetres), where
  \<open>q_per_inlet\<close> is the flow in cubic metres per second divided by the inlet count taken
  as at least 1; the target velocity is then positive and the quotient not negative.
\<close>

theorem nozzle_resize_recommended:
  assumes "js_lt (inletVelocity_m_s (metrics (analyzeScenario s))) (v_target s)"
    and "inflow_Lps (operation s) = Fin f" and "0 \<le> f"
    and "count (inlet s) = Fin c" and "v_target s = Fin t"
  shows "\<lparr>rec_id = ''rec-nozzle'', rec_type = type_design,
          message =
            [Txt ''To achieve '', ToStr (Fin t),
             Txt '' m/s, reduce nozzle diameter to ~'',
             ToFixed 0 (Fin (sqrt (4 * (f / 1000 / max 1 c) / (pi * t)) * 1000)),
             Txt ''mm.''],
          priority = prio_high\<rparr> \<in> set (recommendations (analyzeScenario s))
     \<and> 0 < t \<and> 0 \<le> 4 * (f / 1000 / max 1 c) / (pi * t)"
proof -
  have v: "js_lt (Vjet s) (Fin t)" using assms by (simp add: analyze_metrics)
  have "js_lt (computeInletVelocity (Fin f) (nozzleArea s) (Fin c)) (Fin t)"
    using v assms by (simp add: Vjet_def)
  then have t: "0 < t"
    using velocity_sign [OF assms(3), of "nozzleArea s" "Fin c"] by auto
  have m: "0 < max 1 c" by simp
  have q: "0 \<le> 4 * (f / 1000 / max 1 c)"
    using assms(3) m by simp
  have "0 < pi * t" using t by simp
  with q have nn: "0 \<le> 4 * (f / 1000 / max 1 c) / (pi * t)"
    by (rule divide_nonneg_pos)
  have nz: "max 1 c \<noteq> 0" "pi * t \<noteq> 0" using t m by simp_all
  have d: "max_d_m s = Fin (sqrt (4 * (f / 1000 / max 1 c) / (pi * t)))"
    using nn nz unfolding max_d_m_def q_per_inlet_def q_m3s_def Math_PI_def assms(2,4,5)
    by (simp add: not_less)
  have "nozzle_rec s \<in> set (filter ((=) ''rec-nozzle'' \<circ> rec_id) (recommendations (analyzeScenario s)))"
    using v assms(5) by (simp add: nozzle_recommendations)
  then have "nozzle_rec s \<in> set (recommendations (analyzeScenario s))"
    by simp
  then show ?thesis
    using t nn by (simp add: nozzle_rec_def d assms(5))
qed

theorem nozzle_resize_recommended_witness:
  "js_lt (inletVelocity_m_s (metrics (analyzeScenario wide_nozzle_scenario)))
         (v_target wide_nozzle_scenario)
   \<and> inflow_Lps (operation wide_nozzle_scenario) = Fin 20
   \<and> count (inlet wide_nozzle_scenario) = Fin 1
   \<and> v_target wide_nozzle_scenario = Fin 0.8
   \<and> \<lparr>rec_id = ''rec-nozzle'', rec_type = type_design,
       message =
         [Txt ''To achieve '', ToStr (Fin 0.8),
          Txt '' m/s, reduce nozzle diameter to ~'',
          ToFixed 0 (Fin (sqrt (0.1 / pi) * 1000)),
          Txt ''mm.''],
       priority = prio_high\<rparr> \<in> set (recommendations (analyzeScenario wide_nozzle_scenario))"
proof -
  have vt: "v_target wide_nozzle_scenario = Fin 0.8"
    by (simp add: v_target_def default_fields)
  have "8 < 9 * pi * 0.8" using pi_ge_two by simp
  then have "8 / (9 * pi) < 0.8" by (simp add: pos_divide_less_eq)
  then have h: "js_lt (inletVelocity_m_s (metrics (analyzeScenario wide_nozzle_scenario)))
         (v_target wide_nozzle_scenario)"
    by (simp add: analyze_metrics Vjet_wide_nozzle vt)
  have q: "inflow_Lps (operation wide_nozzle_scenario) = Fin 20"
    "count (inlet wide_nozzle_scenario) = Fin 1"
    by (simp_all add: default_fields)
  have z: "(0::real) \<le> 20" by simp
  from nozzle_resize_recommended [OF h q(1) z q(2) vt] h q vt show ?thesis
    by simp
qed

section \<open>Jet penetration\<close>

lemma ids_elevation_recs:
  "''vert-strat-fail'' \<notin> rec_id ` set recs \<Longrightarrow>
   ''vert-strat-fail'' \<notin> rec_id ` set (elevation_recs s recs)"
  by (simp add: elevation_recs_def Let_def)

lemma ids_momentum_check:
  "''vert-strat-fail'' \<notin> rec_id ` set recs \<Longrightarrow>
   ''vert-strat-fail'' \<notin> rec_id ` set (snd (momentum_check s (vs, recs)))"
  by (simp add: momentum_check_def)

lemma ids_stratification_check:
  "penetrationReach s \<noteq> upper_layer_only \<Longrightarrow>
   ''vert-strat-fail'' \<notin> rec_id ` set recs \<Longrightarrow>
   ''vert-strat-fail'' \<notin> rec_id ` set (snd (stratification_check s (vs, recs)))"
  by (simp add: stratification_check_def)

lemma ids_turnover_check:
  "''vert-strat-fail'' \<notin> rec_id ` set recs \<Longrightarrow>
   ''vert-strat-fail'' \<notin> rec_id ` set (snd (turnover_check s (vs, recs)))"
  by (simp add: turnover_check_def)

lemma ids_horizontal_recs:
  "''vert-strat-fail'' \<notin> rec_id ` set recs \<Longrightarrow>
   ''vert-strat-fail'' \<notin> rec_id ` set (horizontal_recs s recs)"
  by (simp add: horizontal_recs_def Let_def)

lemma ids_advice_recs:
  "''vert-strat-fail'' \<notin> rec_id ` set recs \<Longrightarrow>
   ''vert-strat-fail'' \<notin> rec_id ` set (advice_recs s vs recs)"
  by (simp add: advice_recs_def nozzle_rec_def Let_def)

lemma ids_vertical:
  assumes "penetrationReach s \<noteq> upper_layer_only"
    and "''vert-strat-fail'' \<notin> rec_id ` set recs"
  shows "''vert-strat-fail'' \<notin> rec_id ` set (snd (vertical s recs))"
proof -
  obtain v1 r1 where m: "momentum_check s (PASS, recs) = (v1, r1)"
    by (cases "momentum_check s (PASS, recs)")
  obtain v2 r2 where st: "stratification_check s (v1, r1) = (v2, r2)"
    by (cases "stratification_check s (v1, r1)")
  have 1: "''vert-strat-fail'' \<notin> rec_id ` set r1"
    using ids_momentum_check [OF assms(2), of s PASS] by (simp add: m)
  have 2: "''vert-strat-fail'' \<notin> rec_id ` set r2"
    using ids_stratification_check [OF assms(1) 1, of v1] by (simp add: st)
  show ?thesis
    using ids_turnover_check [OF 2, of s v2] by (simp add: vertical_def m st)
qed

text \<open>
  C10. Whenever the stable-stratification predicate fails (the worst-case temperature
  difference is below 2 degrees, or the Richardson number does not exceed the warn
  threshold), the jet-penetration metric is \<open>bottom\<close> whatever the inlet elevation, the
  penetration check leaves every status as it is, and no recommendation is the
  stratification failure.
\<close>

theorem penetration_bottom_without_stratification:
  assumes "js_lt (deltaT_inlet_vs_tank (metrics (analyzeScenario s))) (Fin 2)
           \<or> \<not> js_gt (richardsonNumber (metrics (analyzeScenario s)))
                      (ri_threshold_warn (options s))"
  shows "jetPenetrationReach (metrics (analyzeScenario s)) = bottom
     \<and> penetration_step s vs = vs
     \<and> ''vert-strat-fail'' \<notin> rec_id ` set (recommendations (analyzeScenario s))"
proof -
  have "js_lt x (Fin 2) \<Longrightarrow> \<not> js_ge x (Fin 2)" for x
    by (cases x) (simp_all add: js_ge_def)
  then have "\<not> stableStratLikely s"
    using assms by (auto simp add: analyze_metrics stableStratLikely_def)
  then have b: "penetrationReach s = bottom"
    by (simp add: penetrationReach_def)
  then have n: "penetrationReach s \<noteq> upper_layer_only" by simp
  have "''vert-strat-fail'' \<notin> rec_id ` set (elevation_recs s [])"
    by (rule ids_elevation_recs) simp
  then have "''vert-strat-fail'' \<notin> rec_id ` set (snd (vertical s (elevation_recs s [])))"
    by (rule ids_vertical [OF n])
  then have "''vert-strat-fail'' \<notin> rec_id ` set (recommendations (analyzeScenario s))"
    unfolding analyze_recommendations
    by (intro ids_advice_recs ids_horizontal_recs)
  then show ?thesis using b by (simp add: analyze_metrics penetration_step_def)
qed

theorem penetration_bottom_without_stratification_witness:
  "js_gt (inlet_elevation_from_floor_m (inlet high_inlet_scenario))
         (js_mul (Fin 0.5) (water_depth_m (tank high_inlet_scenario)))
   \<and> deltaT_inlet_vs_tank (metrics (analyzeScenario high_inlet_scenario)) = Fin 7
   \<and> \<not> js_gt (richardsonNumber (metrics (analyzeScenario high_inlet_scenario)))
             (ri_threshold_warn (options high_inlet_scenario))
   \<and> jetPenetrationReach (metrics (analyzeScenario high_inlet_scenario)) = bottom
   \<and> ''vert-strat-fail'' \<notin> rec_id ` set (recommendations (analyzeScenario high_inlet_scenario))"
proof -
  have "9.81 * 0.00021 * 7 * 1.25 * (9 * pi) ^ 2 \<le> 32 ^ 2"
  proof -
    have "(9 * pi) ^ 2 \<le> (9 * 4) ^ 2"
      using pi_less_4 by (intro power_mono) simp_all
    then show ?thesis by simp
  qed
  then have r: "9.81 * 0.00021 * 7 * 1.25 / (32 / (9 * pi)) ^ 2 \<le> 1"
    by (simp add: power_divide pos_divide_le_eq)
  have w: "ri_threshold_warn (options high_inlet_scenario) = Fin 1"
    by (simp add: default_fields)
  have "Ri high_inlet_scenario = Fin (9.81 * 0.00021 * 7 * 1.25 / (32 / (9 * pi)) ^ 2)"
    using velocity_32_9_pi
    by (simp add: Ri_def Ri_raw_cases Vjet_nozzle_150 dt_values L_values beta_def
        estimateBetaPerC_def G_def)
  then have h: "\<not> js_gt (richardsonNumber (metrics (analyzeScenario high_inlet_scenario)))
             (ri_threshold_warn (options high_inlet_scenario))"
    using r by (simp add: analyze_metrics w js_gt_def not_less)
  have d: "deltaT_inlet_vs_tank (metrics (analyzeScenario high_inlet_scenario)) = Fin 7"
    by (simp add: analyze_metrics dt_values)
  have e: "js_gt (inlet_elevation_from_floor_m (inlet high_inlet_scenario))
         (js_mul (Fin 0.5) (water_depth_m (tank high_inlet_scenario)))"
    by (simp add: default_fields js_gt_def)
  from h have "js_lt (deltaT_inlet_vs_tank (metrics (analyzeScenario high_inlet_scenario))) (Fin 2)
           \<or> \<not> js_gt (richardsonNumber (metrics (analyzeScenario high_inlet_scenario)))
                      (ri_threshold_warn (options high_inlet_scenario))" by simp
  from penetration_bottom_without_stratification [OF this] d h e show ?thesis by simp
qed

end
